theory Spec2Isabelle
  imports Main
begin

section \<open>Data model of the initialization script\<close>

text \<open>
  The script under verification is the protocol initialization script (its \<open>main\<close>
  function and the helpers it calls). A public key is kept in its base58 form, the form the
  source writes it in; \<open>PublicKey.default\<close> is the all-zero key, thirty-two times the
  digit \<open>1\<close> in base58.
\<close>

datatype pubkey = PublicKey (toBase58: string)

definition PublicKey_default :: pubkey where
  "PublicKey_default = PublicKey ''11111111111111111111111111111111''"

record geo_premium =
  regionCode :: int
  premiumBps :: int

text \<open>The shape of \<open>CONFIG_PARAMS\<close>: the desired configuration.\<close>

record config_params =
  baseRatePerMb :: int
  protocolFeeBps :: int
  tierThresholds :: "int list"
  tierMultipliers :: "int list"
  tokensPer5gb :: int
  geoPremiums :: "geo_premium list"
  oracleAuthority :: pubkey

definition CONFIG_PARAMS :: config_params where
  "CONFIG_PARAMS =
     \<lparr> baseRatePerMb = 1500,
       protocolFeeBps = 200,
       tierThresholds = [100, 500, 1000],
       tierMultipliers = [10000, 12000, 15000],
       tokensPer5gb = 500000000,
       geoPremiums =
         [\<lparr>regionCode = 0, premiumBps = 5000\<rparr>,
          \<lparr>regionCode = 1, premiumBps = 4000\<rparr>,
          \<lparr>regionCode = 2, premiumBps = 2000\<rparr>],
       oracleAuthority = PublicKey ''9WE7mxzUNFGJ4df3kuALhAWLmBmFkYvTt8LkMDFVuycC'' \<rparr>"

text \<open>
  The decoded \<open>protocolConfig\<close> account, as \<open>program.account.protocolConfig.fetch\<close>
  returns it. The script reads the fields \<open>oracleAuthority\<close>, \<open>arkhamTokenMint\<close>,
  \<open>tokensPer5gb\<close> and \<open>geoPremiums\<close> behind a truthiness test, so they may be missing
  (\<open>None\<close>); the other fields are dereferenced directly. The field names carry the prefix
  \<open>acct_\<close> to keep them apart from those of \<open>CONFIG_PARAMS\<close>.
\<close>

record protocol_config =
  acct_authority :: pubkey
  acct_treasury :: pubkey
  acct_baseRatePerMb :: int
  acct_protocolFeeBps :: int
  acct_tierThresholds :: "int list"
  acct_tierMultipliers :: "int list"
  acct_tokensPer5gb :: "int option"
  acct_geoPremiums :: "geo_premium list option"
  acct_arkhamTokenMint :: "pubkey option"
  acct_oracleAuthority :: "pubkey option"
  acct_reputationUpdater :: pubkey

text \<open>
  The eight positional arguments of the \<open>updateProtocolConfig\<close> instruction. Each is
  nullable: \<open>null\<close> (here \<open>None\<close>) keeps the stored value, as the source comments at the
  \<open>reputationUpdater\<close> argument.
\<close>

record update_args =
  upd_baseRatePerMb :: "int option"
  upd_protocolFeeBps :: "int option"
  upd_tierThresholds :: "int list option"
  upd_tierMultipliers :: "int list option"
  upd_tokensPer5gb :: "int option"
  upd_geoPremiums :: "geo_premium list option"
  upd_reputationUpdater :: "pubkey option"
  upd_oracleAuthority :: "pubkey option"

text \<open>
  The four instructions the script submits, with their arguments and the accounts passed in
  \<open>.accounts({...})\<close> (the system and token program ids are constants and left out):
  \<^item> \<open>InitializeProtocolConfig args protocolConfig treasury authority\<close>
  \<^item> \<open>UpdateProtocolConfig args protocolConfig authority\<close>
  \<^item> \<open>CloseProtocolConfig protocolConfig authority receiver\<close>
  \<^item> \<open>InitializeArkhamMint arkhamMint mintAuthority protocolConfig authority\<close>
\<close>

datatype action =
    InitializeProtocolConfig config_params pubkey pubkey pubkey
  | UpdateProtocolConfig update_args pubkey pubkey
  | CloseProtocolConfig pubkey pubkey pubkey
  | InitializeArkhamMint pubkey pubkey pubkey pubkey

text \<open>Every call the script makes to the cluster: two kinds of read, one kind of write.\<close>

datatype remote_call =
    GetAccountInfo pubkey
  | FetchProtocolConfig pubkey
  | Submit action

text \<open>
  The raw account returned by \<open>connection.getAccountInfo\<close>. The script only compares
  it with \<open>null\<close> and never reads its contents.
\<close>

datatype account_info = AccountInfo

datatype js_error = Error (message: string) | TypeError (message: string)

text \<open>
  The wallet key and the three program-derived addresses that steps 1 to 3 of \<open>main\<close>
  compute before the first call to the cluster.
\<close>

record env =
  authority :: pubkey
  protocolConfigPda :: pubkey
  arkhamMintPda :: pubkey
  mintAuthorityPda :: pubkey

text \<open>
  What the cluster answers at each call site of one run: \<open>Inl e\<close> when the call throws
  \<open>e\<close>, \<open>Inr v\<close> when it returns \<open>v\<close>. Every call site is reached at most once in a
  run (the two calls of \<open>initializeProtocolConfig\<close> lie in exclusive branches), so one
  answer per site describes any behaviour of the cluster during the run.
\<close>

record responses =
  getAccountInfo_config :: "js_error + account_info option"
  fetch_existing :: "js_error + protocol_config"
  rpc_initializeProtocolConfig :: "js_error + string"
  rpc_closeProtocolConfig :: "js_error + string"
  rpc_updateProtocolConfig :: "js_error + string"
  fetch_current :: "js_error + protocol_config"
  getAccountInfo_mint :: "js_error + account_info option"
  rpc_initializeArkhamMint :: "js_error + string"
  fetch_final :: "js_error + protocol_config"

section \<open>Asynchronous code with exceptions and console output\<close>

text \<open>
  What a run leaves behind: the lines written by \<open>console.log\<close> and \<open>console.error\<close>
  and the calls made to the cluster, each in order. Of the console output the status and
  diagnostic lines of steps 4 to 6 are modelled, without their emoji and indentation; the
  lines that only echo a field of a fetched config are left out.
\<close>

record run_state =
  stdout :: "string list"
  stderr :: "string list"
  calls :: "remote_call list"

type_synonym 'a promise = "run_state \<Rightarrow> (js_error + 'a) \<times> run_state"

definition resolve :: "'a \<Rightarrow> 'a promise" where
  "resolve v s = (Inr v, s)"

definition throw :: "js_error \<Rightarrow> 'a promise" where
  "throw e s = (Inl e, s)"

definition await :: "'a promise \<Rightarrow> ('a \<Rightarrow> 'b promise) \<Rightarrow> 'b promise" where
  "await m k s = (case m s of (Inl e, s') \<Rightarrow> (Inl e, s') | (Inr v, s') \<Rightarrow> k v s')"

definition try_catch :: "'a promise \<Rightarrow> (js_error \<Rightarrow> 'a promise) \<Rightarrow> 'a promise" where
  "try_catch body handler s =
     (case body s of (Inl e, s') \<Rightarrow> handler e s' | (Inr v, s') \<Rightarrow> (Inr v, s'))"

definition console_log :: "string list \<Rightarrow> unit promise" where
  "console_log ls s = (Inr (), s\<lparr>stdout := stdout s @ ls\<rparr>)"

definition console_error :: "string list \<Rightarrow> unit promise" where
  "console_error ls s = (Inr (), s\<lparr>stderr := stderr s @ ls\<rparr>)"

definition remote :: "remote_call \<Rightarrow> js_error + 'a \<Rightarrow> 'a promise" where
  "remote c response s = (response, s\<lparr>calls := calls s @ [c]\<rparr>)"

section \<open>Helper functions\<close>

definition accountExists :: "js_error + account_info option \<Rightarrow> pubkey \<Rightarrow> bool promise" where
  "accountExists response address =
     try_catch
       (await (remote (GetAccountInfo address) response)
          (\<lambda>accountInfo. resolve (accountInfo \<noteq> None)))
       (\<lambda>error. resolve False)"

definition fetchProtocolConfig ::
  "js_error + protocol_config \<Rightarrow> pubkey \<Rightarrow> protocol_config option promise" where
  "fetchProtocolConfig response protocolConfigPda' =
     try_catch
       (await (remote (FetchProtocolConfig protocolConfigPda') response)
          (\<lambda>config. resolve (Some config)))
       (\<lambda>error.
          await (console_log [''Could not deserialize config (might be from old version)''])
            (\<lambda>_. resolve None))"

definition getAccountInfo ::
  "js_error + account_info option \<Rightarrow> pubkey \<Rightarrow> account_info option promise" where
  "getAccountInfo response address =
     try_catch (remote (GetAccountInfo address) response) (\<lambda>error. resolve None)"

section \<open>The four submissions\<close>

definition initializeProtocolConfig ::
  "config_params \<Rightarrow> responses \<Rightarrow> pubkey \<Rightarrow> pubkey \<Rightarrow> pubkey \<Rightarrow> unit promise" where
  "initializeProtocolConfig D R authority' protocolConfigPda' treasury =
     await (console_log [''Initializing Protocol Config...''])
       (\<lambda>_. try_catch
          (await
             (remote
                (Submit (InitializeProtocolConfig D protocolConfigPda' treasury authority'))
                (rpc_initializeProtocolConfig R))
             (\<lambda>tx. console_log
                [''Protocol Config initialized successfully!'',
                 ''Transaction: '' @ tx,
                 ''Config PDA: '' @ toBase58 protocolConfigPda']))
          (\<lambda>error.
             await (console_error [''Failed to initialize Protocol Config:'', message error])
               (\<lambda>_. throw error)))"

definition update_payload :: "config_params \<Rightarrow> update_args" where
  "update_payload D =
     \<lparr> upd_baseRatePerMb = Some (baseRatePerMb D),
       upd_protocolFeeBps = Some (protocolFeeBps D),
       upd_tierThresholds = Some (tierThresholds D),
       upd_tierMultipliers = Some (tierMultipliers D),
       upd_tokensPer5gb = Some (tokensPer5gb D),
       upd_geoPremiums = Some (geoPremiums D),
       upd_reputationUpdater = None,
       upd_oracleAuthority = Some (oracleAuthority D) \<rparr>"

definition updateProtocolConfig ::
  "config_params \<Rightarrow> responses \<Rightarrow> pubkey \<Rightarrow> pubkey \<Rightarrow> unit promise" where
  "updateProtocolConfig D R authority' protocolConfigPda' =
     await (console_log [''Updating Protocol Config...''])
       (\<lambda>_. try_catch
          (await
             (remote
                (Submit (UpdateProtocolConfig (update_payload D) protocolConfigPda' authority'))
                (rpc_updateProtocolConfig R))
             (\<lambda>tx. console_log
                [''Protocol Config updated successfully!'', ''Transaction: '' @ tx]))
          (\<lambda>error.
             await (console_error [''Failed to update Protocol Config:'', message error])
               (\<lambda>_. throw error)))"

definition closeProtocolConfig :: "responses \<Rightarrow> pubkey \<Rightarrow> pubkey \<Rightarrow> unit promise" where
  "closeProtocolConfig R authority' protocolConfigPda' =
     await (console_log [''Attempting to close existing Protocol Config...''])
       (\<lambda>_. try_catch
          (await
             (remote
                (Submit (CloseProtocolConfig protocolConfigPda' authority' authority'))
                (rpc_closeProtocolConfig R))
             (\<lambda>tx. console_log
                [''Protocol Config closed successfully!'', ''Transaction: '' @ tx]))
          (\<lambda>error.
             await (console_error [''Failed to close Protocol Config:'', message error])
               (\<lambda>_. throw error)))"

definition initializeArkhamMint ::
  "responses \<Rightarrow> pubkey \<Rightarrow> pubkey \<Rightarrow> pubkey \<Rightarrow> pubkey \<Rightarrow> unit promise" where
  "initializeArkhamMint R authority' protocolConfigPda' arkhamMintPda' mintAuthorityPda' =
     await (console_log [''Initializing ARKHAM Token Mint...''])
       (\<lambda>_. try_catch
          (await
             (remote
                (Submit (InitializeArkhamMint arkhamMintPda' mintAuthorityPda'
                           protocolConfigPda' authority'))
                (rpc_initializeArkhamMint R))
             (\<lambda>tx. console_log
                [''ARKHAM Mint initialized successfully!'',
                 ''Transaction: '' @ tx,
                 ''Mint PDA: '' @ toBase58 arkhamMintPda']))
          (\<lambda>error.
             await (console_error [''Failed to initialize ARKHAM Mint:'', message error])
               (\<lambda>_. throw error)))"

section \<open>The main script\<close>

definition needsOracleUpdate :: "config_params \<Rightarrow> protocol_config \<Rightarrow> bool" where
  "needsOracleUpdate D existingConfig =
     (case acct_oracleAuthority existingConfig of
        None \<Rightarrow> True
      | Some k \<Rightarrow> k = PublicKey_default \<or> k \<noteq> oracleAuthority D)"

definition mintIsInitialized :: "protocol_config \<Rightarrow> bool" where
  "mintIsInitialized currentConfig =
     (case acct_arkhamTokenMint currentConfig of
        None \<Rightarrow> False
      | Some k \<Rightarrow> k \<noteq> PublicKey_default)"

text \<open>Step 4 of \<open>main\<close>: probe the protocol config and bring it up.\<close>

definition step4 :: "env \<Rightarrow> config_params \<Rightarrow> responses \<Rightarrow> unit promise" where
  "step4 E D R =
     await (console_log [''Checking Protocol Config status...''])
       (\<lambda>_. await (getAccountInfo (getAccountInfo_config R) (protocolConfigPda E))
       (\<lambda>accountInfo. let accountPhysicallyExists = (accountInfo \<noteq> None) in
        await (fetchProtocolConfig (fetch_existing R) (protocolConfigPda E))
       (\<lambda>existingConfig.
          if \<not> accountPhysicallyExists then
            await (console_log [''Status: Not initialized (no account)''])
              (\<lambda>_. initializeProtocolConfig D R (authority E) (protocolConfigPda E)
                     (authority E))
          else case existingConfig of
            None \<Rightarrow>
              await (console_log
                       [''Status: Account exists but cannot be deserialized'',
                        ''This likely means the account is from an old program version.'',
                        ''OPTIONS:'',
                        ''1. Close the old account and reinitialize (requires close_protocol_config instruction)'',
                        ''2. Manually migrate the data'',
                        ''3. Use a different PDA seed'',
                        ''Attempting to close and reinitialize...''])
                (\<lambda>_. try_catch
                   (await (closeProtocolConfig R (authority E) (protocolConfigPda E))
                      (\<lambda>_. await (resolve ())
                      (\<lambda>_. initializeProtocolConfig D R (authority E) (protocolConfigPda E)
                             (authority E))))
                   (\<lambda>closeError.
                      await (console_error
                               [''Could not close existing account.'',
                                ''You may need to:'',
                                ''1. Add a close_protocol_config instruction to your program'',
                                ''2. Redeploy with a different program ID'',
                                ''3. Use solana CLI to close the account manually''])
                        (\<lambda>_. throw
                           (Error ''Cannot proceed - account exists but is incompatible''))))
          | Some existingConfig' \<Rightarrow>
              await (console_log [''Status: Already initialized and compatible''])
                (\<lambda>_. if needsOracleUpdate D existingConfig' then
                   await (console_log [''Oracle authority needs to be set/updated''])
                     (\<lambda>_. updateProtocolConfig D R (authority E) (protocolConfigPda E))
                 else console_log [''Configuration is up to date'']))))"

text \<open>
  Step 5 of \<open>main\<close>: re-fetch the config and bring the ARKHAM mint up. The three lines
  logged when the mint account exists without being linked are named, to refer to them.
\<close>

definition mint_not_linked_warning :: "string list" where
  "mint_not_linked_warning =
     [''Mint account exists but not linked in config!'',
      ''This might indicate a previous failed transaction.'',
      ''Manual intervention may be required.'']"

definition step5 :: "env \<Rightarrow> responses \<Rightarrow> unit promise" where
  "step5 E R =
     await (console_log [''Checking ARKHAM Mint status...''])
       (\<lambda>_. await (fetchProtocolConfig (fetch_current R) (protocolConfigPda E))
       (\<lambda>currentConfig.
          case currentConfig of
            None \<Rightarrow>
              throw (Error ''Protocol Config must be initialized before mint initialization'')
          | Some currentConfig' \<Rightarrow>
              if mintIsInitialized currentConfig' then
                console_log [''Status: Already initialized'']
              else
                await (console_log [''Status: Not initialized''])
                  (\<lambda>_. await (accountExists (getAccountInfo_mint R) (arkhamMintPda E))
                  (\<lambda>mintExists.
                     if mintExists then console_log mint_not_linked_warning
                     else
                       initializeArkhamMint R (authority E) (protocolConfigPda E)
                         (arkhamMintPda E) (mintAuthorityPda E)))))"

text \<open>
  Step 6 of \<open>main\<close>: the summary. It fetches the config once more and dereferences the
  result without a test, so a \<open>null\<close> result throws a \<open>TypeError\<close>, as does a missing
  \<open>arkhamTokenMint\<close> at \<open>finalConfig.arkhamTokenMint.toBase58()\<close>.
\<close>

definition step6 :: "env \<Rightarrow> responses \<Rightarrow> unit promise" where
  "step6 E R =
     await (console_log [''Initialization Complete!''])
       (\<lambda>_. await (fetchProtocolConfig (fetch_final R) (protocolConfigPda E))
       (\<lambda>finalConfig.
          await (console_log [''Final Configuration:''])
       (\<lambda>_. case finalConfig of
            None \<Rightarrow> throw (TypeError ''Cannot read properties of null (reading authority)'')
          | Some finalConfig' \<Rightarrow>
              (case acct_arkhamTokenMint finalConfig' of
                 None \<Rightarrow>
                   throw (TypeError
                     ''Cannot read properties of undefined (reading toBase58)'')
               | Some mint \<Rightarrow> console_log [''Protocol is ready for use!'']))))"

text \<open>
  \<open>main\<close> from its step 4 on. Steps 1 to 3 set up the provider, load the interface
  description and derive the addresses; they make no call to the cluster, and their results
  are the \<open>env\<close>. The desired configuration, the constant \<open>CONFIG_PARAMS\<close> in the
  source, is a parameter here.
\<close>

definition main :: "env \<Rightarrow> config_params \<Rightarrow> responses \<Rightarrow> unit promise" where
  "main E D R = await (step4 E D R) (\<lambda>_. await (step5 E R) (\<lambda>_. step6 E R))"

text \<open>
  The entry point: \<open>main().then(() => process.exit(0)).catch(error => { ...;
  process.exit(1) })\<close>, started with nothing written and no call made.
\<close>

record process = run_state +
  exitCode :: int

definition start :: run_state where
  "start = \<lparr>stdout = [], stderr = [], calls = []\<rparr>"

definition script :: "env \<Rightarrow> config_params \<Rightarrow> responses \<Rightarrow> process" where
  "script E D R =
     (case main E D R start of
        (Inr _, s) \<Rightarrow>
          \<lparr>stdout = stdout s, stderr = stderr s, calls = calls s, exitCode = 0\<rparr>
      | (Inl error, s) \<Rightarrow>
          \<lparr>stdout = stdout s,
           stderr = stderr s @ [''Script failed with error:'', message error],
           calls = calls s, exitCode = 1\<rparr>)"

text \<open>The instructions submitted in a sequence of calls, in order.\<close>

fun submitted :: "remote_call list \<Rightarrow> action list" where
  "submitted [] = []"
| "submitted (Submit a # cs) = a # submitted cs"
| "submitted (c # cs) = submitted cs"

section \<open>Notions used to state the properties\<close>

text \<open>
  The three-way classification that the branch conditions of step 4 compute from its two
  probes: no account (\<open>!accountPhysicallyExists\<close>), an account that does not decode
  (\<open>existingConfig === null\<close>), an account that decodes.
\<close>

datatype observed = Absent | Incompatible | Compatible protocol_config

definition observedState :: "responses \<Rightarrow> observed" where
  "observedState R =
     (if (case getAccountInfo_config R of Inl e \<Rightarrow> None | Inr v \<Rightarrow> v) = None then Absent
      else case fetch_existing R of Inl e \<Rightarrow> Incompatible | Inr c \<Rightarrow> Compatible c)"

text \<open>The instructions step 4 submits, in order: the plan for the protocol config.\<close>

definition plan4 :: "env \<Rightarrow> config_params \<Rightarrow> responses \<Rightarrow> action list" where
  "plan4 E D R = submitted (calls (snd (step4 E D R start)))"

text \<open>The instructions step 5 submits: the plan for the ARKHAM mint.\<close>

definition plan5 :: "env \<Rightarrow> responses \<Rightarrow> action list" where
  "plan5 E R = submitted (calls (snd (step5 E R start)))"

text \<open>The answer of the cluster to a submitted instruction.\<close>

fun submit_response :: "responses \<Rightarrow> action \<Rightarrow> js_error + string" where
  "submit_response R (InitializeProtocolConfig D p t a) = rpc_initializeProtocolConfig R"
| "submit_response R (UpdateProtocolConfig u p a) = rpc_updateProtocolConfig R"
| "submit_response R (CloseProtocolConfig p a r) = rpc_closeProtocolConfig R"
| "submit_response R (InitializeArkhamMint m ma p a) = rpc_initializeArkhamMint R"

fun is_InitializeArkhamMint :: "action \<Rightarrow> bool" where
  "is_InitializeArkhamMint (InitializeArkhamMint m ma p a) = True"
| "is_InitializeArkhamMint _ = False"

fun is_InitializeProtocolConfig :: "action \<Rightarrow> bool" where
  "is_InitializeProtocolConfig (InitializeProtocolConfig D p t a) = True"
| "is_InitializeProtocolConfig _ = False"

text \<open>Field-by-field equality of a decoded account with a desired configuration.\<close>

definition fields_equal :: "config_params \<Rightarrow> protocol_config \<Rightarrow> bool" where
  "fields_equal D c \<longleftrightarrow>
     acct_baseRatePerMb c = baseRatePerMb D \<and>
     acct_protocolFeeBps c = protocolFeeBps D \<and>
     acct_tierThresholds c = tierThresholds D \<and>
     acct_tierMultipliers c = tierMultipliers D \<and>
     acct_tokensPer5gb c = Some (tokensPer5gb D) \<and>
     acct_geoPremiums c = Some (geoPremiums D) \<and>
     acct_oracleAuthority c = Some (oracleAuthority D)"

text \<open>The number of arguments of an update that are not \<open>null\<close>.\<close>

definition changed_fields :: "update_args \<Rightarrow> nat" where
  "changed_fields u =
     (if upd_baseRatePerMb u = None then 0 else 1) +
     (if upd_protocolFeeBps u = None then 0 else 1) +
     (if upd_tierThresholds u = None then 0 else 1) +
     (if upd_tierMultipliers u = None then 0 else 1) +
     (if upd_tokensPer5gb u = None then 0 else 1) +
     (if upd_geoPremiums u = None then 0 else 1) +
     (if upd_reputationUpdater u = None then 0 else 1) +
     (if upd_oracleAuthority u = None then 0 else 1)"

section \<open>Example runs\<close>

definition example_env :: env where
  "example_env =
     \<lparr> authority = PublicKey ''Wallet'',
       protocolConfigPda = PublicKey ''ConfigPda'',
       arkhamMintPda = PublicKey ''MintPda'',
       mintAuthorityPda = PublicKey ''MintAuthorityPda'' \<rparr>"

text \<open>An account that holds exactly \<open>D\<close>, with the given mint link.\<close>

definition account_of :: "config_params \<Rightarrow> pubkey \<Rightarrow> protocol_config" where
  "account_of D mint =
     \<lparr> acct_authority = PublicKey ''Wallet'',
       acct_treasury = PublicKey ''Wallet'',
       acct_baseRatePerMb = baseRatePerMb D,
       acct_protocolFeeBps = protocolFeeBps D,
       acct_tierThresholds = tierThresholds D,
       acct_tierMultipliers = tierMultipliers D,
       acct_tokensPer5gb = Some (tokensPer5gb D),
       acct_geoPremiums = Some (geoPremiums D),
       acct_arkhamTokenMint = Some mint,
       acct_oracleAuthority = Some (oracleAuthority D),
       acct_reputationUpdater = PublicKey ''Wallet'' \<rparr>"

text \<open>
  A cluster that reports an account at the config address, decodes it to \<open>c\<close> at each of
  the three fetches, reports no account at the mint address and confirms every submission.
\<close>

definition steady :: "protocol_config \<Rightarrow> responses" where
  "steady c =
     \<lparr> getAccountInfo_config = Inr (Some AccountInfo),
       fetch_existing = Inr c,
       rpc_initializeProtocolConfig = Inr ''tx-initialize'',
       rpc_closeProtocolConfig = Inr ''tx-close'',
       rpc_updateProtocolConfig = Inr ''tx-update'',
       fetch_current = Inr c,
       getAccountInfo_mint = Inr None,
       rpc_initializeArkhamMint = Inr ''tx-mint'',
       fetch_final = Inr c \<rparr>"

section \<open>The cluster, as the specification describes it\<close>










section \<open>Projections of the primitives\<close>

lemma await_fst:
  "fst (await m k s) = (case fst (m s) of Inl e \<Rightarrow> Inl e | Inr v \<Rightarrow> fst (k v (snd (m s))))"
  by (simp add: await_def split: prod.splits sum.splits)

lemma await_snd:
  "snd (await m k s) = (case fst (m s) of Inl e \<Rightarrow> snd (m s) | Inr v \<Rightarrow> snd (k v (snd (m s))))"
  by (simp add: await_def split: prod.splits sum.splits)

lemma try_catch_fst:
  "fst (try_catch m h s) = (case fst (m s) of Inl e \<Rightarrow> fst (h e (snd (m s))) | Inr v \<Rightarrow> Inr v)"
  by (simp add: try_catch_def split: prod.splits sum.splits)

lemma try_catch_snd:
  "snd (try_catch m h s) = (case fst (m s) of Inl e \<Rightarrow> snd (h e (snd (m s))) | Inr v \<Rightarrow> snd (m s))"
  by (simp add: try_catch_def split: prod.splits sum.splits)

lemma prim_fst:
  "fst (resolve v s) = Inr v"
  "fst (throw e s) = Inl e"
  "fst (console_log ls s) = Inr ()"
  "fst (console_error ls s) = Inr ()"
  "fst (remote c r s) = r"
  by (simp_all add: resolve_def throw_def console_log_def console_error_def remote_def)

lemma prim_calls:
  "calls (snd (resolve v s)) = calls s"
  "calls (snd (throw e s)) = calls s"
  "calls (snd (console_log ls s)) = calls s"
  "calls (snd (console_error ls s)) = calls s"
  "calls (snd (remote c r s)) = calls s @ [c]"
  by (simp_all add: resolve_def throw_def console_log_def console_error_def remote_def)

lemma prim_stdout:
  "stdout (snd (resolve v s)) = stdout s"
  "stdout (snd (throw e s)) = stdout s"
  "stdout (snd (console_log ls s)) = stdout s @ ls"
  "stdout (snd (console_error ls s)) = stdout s"
  "stdout (snd (remote c r s)) = stdout s"
  by (simp_all add: resolve_def throw_def console_log_def console_error_def remote_def)

lemmas proj = await_fst await_snd try_catch_fst try_catch_snd prim_fst prim_calls prim_stdout

section \<open>What each helper returns and which calls it makes\<close>

lemma getAccountInfo_fst:
  "fst (getAccountInfo response a s) = Inr (case response of Inl e \<Rightarrow> None | Inr v \<Rightarrow> v)"
  by (simp add: getAccountInfo_def proj split: sum.splits)

lemma getAccountInfo_calls:
  "calls (snd (getAccountInfo response a s)) = calls s @ [GetAccountInfo a]"
  by (simp add: getAccountInfo_def proj split: sum.splits)

lemma getAccountInfo_stdout:
  "stdout (snd (getAccountInfo response a s)) = stdout s"
  by (simp add: getAccountInfo_def proj split: sum.splits)

lemma accountExists_fst:
  "fst (accountExists response a s) =
     Inr (case response of Inl e \<Rightarrow> False | Inr v \<Rightarrow> v \<noteq> None)"
  by (simp add: accountExists_def proj split: sum.splits)

lemma accountExists_calls:
  "calls (snd (accountExists response a s)) = calls s @ [GetAccountInfo a]"
  by (simp add: accountExists_def proj split: sum.splits)

lemma accountExists_stdout:
  "stdout (snd (accountExists response a s)) = stdout s"
  by (simp add: accountExists_def proj split: sum.splits)

lemma fetchProtocolConfig_fst:
  "fst (fetchProtocolConfig response a s) =
     Inr (case response of Inl e \<Rightarrow> None | Inr c \<Rightarrow> Some c)"
  by (simp add: fetchProtocolConfig_def proj split: sum.splits)

lemma fetchProtocolConfig_calls:
  "calls (snd (fetchProtocolConfig response a s)) = calls s @ [FetchProtocolConfig a]"
  by (simp add: fetchProtocolConfig_def proj split: sum.splits)

lemma fetchProtocolConfig_stdout:
  "stdout (snd (fetchProtocolConfig (Inr c) a s)) = stdout s"
  by (simp add: fetchProtocolConfig_def proj)

lemma initializeProtocolConfig_fst:
  "fst (initializeProtocolConfig D R a p t s) =
     (case rpc_initializeProtocolConfig R of Inl e \<Rightarrow> Inl e | Inr tx \<Rightarrow> Inr ())"
  by (simp add: initializeProtocolConfig_def proj split: sum.splits)

lemma initializeProtocolConfig_calls:
  "calls (snd (initializeProtocolConfig D R a p t s)) =
     calls s @ [Submit (InitializeProtocolConfig D p t a)]"
  by (simp add: initializeProtocolConfig_def proj split: sum.splits)

lemma closeProtocolConfig_fst:
  "fst (closeProtocolConfig R a p s) =
     (case rpc_closeProtocolConfig R of Inl e \<Rightarrow> Inl e | Inr tx \<Rightarrow> Inr ())"
  by (simp add: closeProtocolConfig_def proj split: sum.splits)

lemma closeProtocolConfig_calls:
  "calls (snd (closeProtocolConfig R a p s)) = calls s @ [Submit (CloseProtocolConfig p a a)]"
  by (simp add: closeProtocolConfig_def proj split: sum.splits)

lemma updateProtocolConfig_fst:
  "fst (updateProtocolConfig D R a p s) =
     (case rpc_updateProtocolConfig R of Inl e \<Rightarrow> Inl e | Inr tx \<Rightarrow> Inr ())"
  by (simp add: updateProtocolConfig_def proj split: sum.splits)

lemma updateProtocolConfig_calls:
  "calls (snd (updateProtocolConfig D R a p s)) =
     calls s @ [Submit (UpdateProtocolConfig (update_payload D) p a)]"
  by (simp add: updateProtocolConfig_def proj split: sum.splits)

lemma initializeArkhamMint_fst:
  "fst (initializeArkhamMint R a p m ma s) =
     (case rpc_initializeArkhamMint R of Inl e \<Rightarrow> Inl e | Inr tx \<Rightarrow> Inr ())"
  by (simp add: initializeArkhamMint_def proj split: sum.splits)

lemma initializeArkhamMint_calls:
  "calls (snd (initializeArkhamMint R a p m ma s)) =
     calls s @ [Submit (InitializeArkhamMint m ma p a)]"
  by (simp add: initializeArkhamMint_def proj split: sum.splits)

lemmas helper_proj = getAccountInfo_fst getAccountInfo_calls getAccountInfo_stdout
  accountExists_fst accountExists_calls accountExists_stdout
  fetchProtocolConfig_fst fetchProtocolConfig_calls fetchProtocolConfig_stdout
  initializeProtocolConfig_fst initializeProtocolConfig_calls
  closeProtocolConfig_fst closeProtocolConfig_calls
  updateProtocolConfig_fst updateProtocolConfig_calls
  initializeArkhamMint_fst initializeArkhamMint_calls

section \<open>What each step returns and which calls it makes\<close>

lemma step4_fst:
  "fst (step4 E D R s) =
     (case observedState R of
        Absent \<Rightarrow> (case rpc_initializeProtocolConfig R of Inl e \<Rightarrow> Inl e | Inr tx \<Rightarrow> Inr ())
      | Incompatible \<Rightarrow>
          (case rpc_closeProtocolConfig R of
             Inl e \<Rightarrow> Inl (Error ''Cannot proceed - account exists but is incompatible'')
           | Inr tx \<Rightarrow>
               (case rpc_initializeProtocolConfig R of
                  Inl e \<Rightarrow> Inl (Error ''Cannot proceed - account exists but is incompatible'')
                | Inr tx' \<Rightarrow> Inr ()))
      | Compatible c \<Rightarrow>
          if needsOracleUpdate D c then
            (case rpc_updateProtocolConfig R of Inl e \<Rightarrow> Inl e | Inr tx \<Rightarrow> Inr ())
          else Inr ())"
  by (simp add: step4_def observedState_def proj helper_proj Let_def
      split: sum.splits option.splits)

lemma step4_calls:
  "calls (snd (step4 E D R s)) =
     calls s @
     [GetAccountInfo (protocolConfigPda E), FetchProtocolConfig (protocolConfigPda E)] @
     (case observedState R of
        Absent \<Rightarrow>
          [Submit (InitializeProtocolConfig D (protocolConfigPda E) (authority E) (authority E))]
      | Incompatible \<Rightarrow>
          Submit (CloseProtocolConfig (protocolConfigPda E) (authority E) (authority E)) #
          (case rpc_closeProtocolConfig R of
             Inl e \<Rightarrow> []
           | Inr tx \<Rightarrow>
               [Submit (InitializeProtocolConfig D (protocolConfigPda E) (authority E)
                          (authority E))])
      | Compatible c \<Rightarrow>
          if needsOracleUpdate D c then
            [Submit (UpdateProtocolConfig (update_payload D) (protocolConfigPda E) (authority E))]
          else [])"
  by (simp add: step4_def observedState_def proj helper_proj Let_def
      split: sum.splits option.splits)

lemma step5_fst:
  "fst (step5 E R s) =
     (case fetch_current R of
        Inl e \<Rightarrow> Inl (Error ''Protocol Config must be initialized before mint initialization'')
      | Inr c \<Rightarrow>
          if mintIsInitialized c then Inr ()
          else if (case getAccountInfo_mint R of Inl e \<Rightarrow> False | Inr v \<Rightarrow> v \<noteq> None)
          then Inr ()
          else (case rpc_initializeArkhamMint R of Inl e \<Rightarrow> Inl e | Inr tx \<Rightarrow> Inr ()))"
  by (simp add: step5_def proj helper_proj split: sum.splits option.splits)

lemma step5_calls:
  "calls (snd (step5 E R s)) =
     calls s @ FetchProtocolConfig (protocolConfigPda E) #
     (case fetch_current R of
        Inl e \<Rightarrow> []
      | Inr c \<Rightarrow>
          if mintIsInitialized c then []
          else GetAccountInfo (arkhamMintPda E) #
            (if (case getAccountInfo_mint R of Inl e \<Rightarrow> False | Inr v \<Rightarrow> v \<noteq> None)
             then []
             else [Submit (InitializeArkhamMint (arkhamMintPda E) (mintAuthorityPda E)
                             (protocolConfigPda E) (authority E))]))"
  by (simp add: step5_def proj helper_proj split: sum.splits option.splits)

lemma step6_fst:
  "fst (step6 E R s) =
     (case fetch_final R of
        Inl e \<Rightarrow> Inl (TypeError ''Cannot read properties of null (reading authority)'')
      | Inr c \<Rightarrow>
          (case acct_arkhamTokenMint c of
             None \<Rightarrow> Inl (TypeError ''Cannot read properties of undefined (reading toBase58)'')
           | Some mint \<Rightarrow> Inr ()))"
  by (simp add: step6_def proj helper_proj split: sum.splits option.splits)

lemma step6_calls:
  "calls (snd (step6 E R s)) = calls s @ [FetchProtocolConfig (protocolConfigPda E)]"
  by (simp add: step6_def proj helper_proj split: sum.splits option.splits)

section \<open>The whole run\<close>

lemma step5_fst_any: "fst (step5 E R s) = fst (step5 E R start)"
  by (simp add: step5_fst)

lemma step6_fst_any: "fst (step6 E R s) = fst (step6 E R start)"
  by (simp add: step6_fst)

lemma step5_calls_any: "calls (snd (step5 E R s)) = calls s @ calls (snd (step5 E R start))"
  by (simp add: step5_calls start_def)

lemma main_fst:
  "fst (main E D R s) =
     (case fst (step4 E D R s) of
        Inl e \<Rightarrow> Inl e
      | Inr _ \<Rightarrow>
          (case fst (step5 E R start) of
             Inl e \<Rightarrow> Inl e
           | Inr _ \<Rightarrow> fst (step6 E R start)))"
proof (cases "fst (step4 E D R s)")
  case (Inl e)
  then show ?thesis by (simp add: main_def await_fst)
next
  case (Inr u)
  then show ?thesis
    using step5_fst_any [of E R "snd (step4 E D R s)"]
      step6_fst_any [of E R "snd (step5 E R (snd (step4 E D R s)))"]
    by (simp add: main_def await_fst split: sum.splits)
qed

lemma main_calls:
  "calls (snd (main E D R s)) =
     calls (snd (step4 E D R s)) @
     (case fst (step4 E D R s) of
        Inl e \<Rightarrow> []
      | Inr _ \<Rightarrow>
          calls (snd (step5 E R start)) @
          (case fst (step5 E R start) of
             Inl e \<Rightarrow> []
           | Inr _ \<Rightarrow> [FetchProtocolConfig (protocolConfigPda E)]))"
proof (cases "fst (step4 E D R s)")
  case (Inl e)
  then show ?thesis by (simp add: main_def await_snd)
next
  case (Inr u)
  then show ?thesis
    using step5_fst_any [of E R "snd (step4 E D R s)"]
      step5_calls_any [of E R "snd (step4 E D R s)"]
    by (simp add: main_def await_snd step6_calls split: sum.splits)
qed

lemma script_exitCode:
  "exitCode (script E D R) = (case fst (main E D R start) of Inl e \<Rightarrow> 1 | Inr _ \<Rightarrow> 0)"
  by (simp add: script_def split: prod.splits sum.splits)

lemma script_calls: "calls (script E D R) = calls (snd (main E D R start))"
  by (simp add: script_def split: prod.splits sum.splits)

lemma script_stdout: "stdout (script E D R) = stdout (snd (main E D R start))"
  by (simp add: script_def split: prod.splits sum.splits)

lemma script_stderr:
  "exitCode (script E D R) = 1 \<Longrightarrow> stderr (script E D R) \<noteq> []"
  by (simp add: script_def split: prod.splits sum.splits)

lemma submitted_append: "submitted (xs @ ys) = submitted xs @ submitted ys"
  by (induction xs rule: submitted.induct) simp_all


section \<open>The plans of a run\<close>

lemma plan4_eq:
  "plan4 E D R =
     (case observedState R of
        Absent \<Rightarrow>
          [InitializeProtocolConfig D (protocolConfigPda E) (authority E) (authority E)]
      | Incompatible \<Rightarrow>
          CloseProtocolConfig (protocolConfigPda E) (authority E) (authority E) #
          (case rpc_closeProtocolConfig R of
             Inl e \<Rightarrow> []
           | Inr tx \<Rightarrow>
               [InitializeProtocolConfig D (protocolConfigPda E) (authority E) (authority E)])
      | Compatible c \<Rightarrow>
          if needsOracleUpdate D c then
            [UpdateProtocolConfig (update_payload D) (protocolConfigPda E) (authority E)]
          else [])"
  by (simp add: plan4_def step4_calls start_def split: observed.splits sum.splits)

lemma plan5_eq:
  "plan5 E R =
     (case fetch_current R of
        Inl e \<Rightarrow> []
      | Inr c \<Rightarrow>
          if mintIsInitialized c
            \<or> (case getAccountInfo_mint R of Inl e \<Rightarrow> False | Inr v \<Rightarrow> v \<noteq> None)
          then []
          else [InitializeArkhamMint (arkhamMintPda E) (mintAuthorityPda E)
                  (protocolConfigPda E) (authority E)])"
  by (simp add: plan5_def step5_calls start_def split: sum.splits)

lemma script_submitted:
  "submitted (calls (script E D R)) =
     plan4 E D R @ (case fst (step4 E D R start) of Inl e \<Rightarrow> [] | Inr _ \<Rightarrow> plan5 E R)"
  by (simp add: script_calls main_calls submitted_append plan4_def plan5_def
      split: sum.splits)

lemma needsOracleUpdate_iff:
  "needsOracleUpdate D c \<longleftrightarrow>
     \<not> (acct_oracleAuthority c = Some (oracleAuthority D) \<and>
        oracleAuthority D \<noteq> PublicKey_default)"
  by (auto simp: needsOracleUpdate_def split: option.splits)

lemma observedState_steady: "observedState (steady c) = Compatible c"
  by (simp add: observedState_def steady_def)

lemma CONFIG_PARAMS_oracle: "oracleAuthority CONFIG_PARAMS \<noteq> PublicKey_default"
  by (simp add: CONFIG_PARAMS_def PublicKey_default_def)

section \<open>Console output of a run\<close>

lemma prim_stderr:
  "stderr (snd (resolve v s)) = stderr s"
  "stderr (snd (throw e s)) = stderr s"
  "stderr (snd (console_log ls s)) = stderr s"
  "stderr (snd (console_error ls s)) = stderr s @ ls"
  "stderr (snd (remote c r s)) = stderr s"
  by (simp_all add: resolve_def throw_def console_log_def console_error_def remote_def)

lemma reads_stderr:
  "stderr (snd (getAccountInfo response a s)) = stderr s"
  "stderr (snd (accountExists response a s)) = stderr s"
  "stderr (snd (fetchProtocolConfig response' a s)) = stderr s"
  by (simp_all add: getAccountInfo_def accountExists_def fetchProtocolConfig_def proj
      prim_stderr split: sum.splits)

lemma initializeProtocolConfig_stderr:
  "stderr (snd (initializeProtocolConfig D R a p t s)) =
     stderr s @
     (case rpc_initializeProtocolConfig R of
        Inl e \<Rightarrow> [''Failed to initialize Protocol Config:'', message e]
      | Inr tx \<Rightarrow> [])"
  by (simp add: initializeProtocolConfig_def proj prim_stderr split: sum.splits)

lemma closeProtocolConfig_stderr:
  "stderr (snd (closeProtocolConfig R a p s)) =
     stderr s @
     (case rpc_closeProtocolConfig R of
        Inl e \<Rightarrow> [''Failed to close Protocol Config:'', message e]
      | Inr tx \<Rightarrow> [])"
  by (simp add: closeProtocolConfig_def proj prim_stderr split: sum.splits)

lemma updateProtocolConfig_stderr:
  "stderr (snd (updateProtocolConfig D R a p s)) =
     stderr s @
     (case rpc_updateProtocolConfig R of
        Inl e \<Rightarrow> [''Failed to update Protocol Config:'', message e]
      | Inr tx \<Rightarrow> [])"
  by (simp add: updateProtocolConfig_def proj prim_stderr split: sum.splits)

lemma initializeArkhamMint_stderr:
  "stderr (snd (initializeArkhamMint R a p m ma s)) =
     stderr s @
     (case rpc_initializeArkhamMint R of
        Inl e \<Rightarrow> [''Failed to initialize ARKHAM Mint:'', message e]
      | Inr tx \<Rightarrow> [])"
  by (simp add: initializeArkhamMint_def proj prim_stderr split: sum.splits)

lemmas helper_stderr = prim_stderr reads_stderr initializeProtocolConfig_stderr
  closeProtocolConfig_stderr updateProtocolConfig_stderr initializeArkhamMint_stderr

lemma step4_stderr:
  assumes "fst (step4 E D R s) = Inr ()"
  shows "stderr (snd (step4 E D R s)) = stderr s"
proof -
  have "stderr (snd (step4 E D R s)) =
     stderr s @
     (case observedState R of
        Absent \<Rightarrow>
          (case rpc_initializeProtocolConfig R of
             Inl e \<Rightarrow> [''Failed to initialize Protocol Config:'', message e]
           | Inr tx \<Rightarrow> [])
      | Incompatible \<Rightarrow>
          (case rpc_closeProtocolConfig R of
             Inl e \<Rightarrow>
               [''Failed to close Protocol Config:'', message e,
                ''Could not close existing account.'', ''You may need to:'',
                ''1. Add a close_protocol_config instruction to your program'',
                ''2. Redeploy with a different program ID'',
                ''3. Use solana CLI to close the account manually'']
           | Inr tx \<Rightarrow>
               (case rpc_initializeProtocolConfig R of
                  Inl e \<Rightarrow>
                    [''Failed to initialize Protocol Config:'', message e,
                     ''Could not close existing account.'', ''You may need to:'',
                     ''1. Add a close_protocol_config instruction to your program'',
                     ''2. Redeploy with a different program ID'',
                     ''3. Use solana CLI to close the account manually'']
                | Inr tx' \<Rightarrow> []))
      | Compatible c \<Rightarrow>
          if needsOracleUpdate D c then
            (case rpc_updateProtocolConfig R of
               Inl e \<Rightarrow> [''Failed to update Protocol Config:'', message e]
             | Inr tx \<Rightarrow> [])
          else [])"
    by (simp add: step4_def observedState_def proj helper_proj helper_stderr Let_def
        split: sum.splits option.splits)
  with assms show ?thesis
    by (simp add: step4_fst split: observed.splits sum.splits if_splits)
qed

lemma step5_stderr:
  assumes "fst (step5 E R s) = Inr ()"
  shows "stderr (snd (step5 E R s)) = stderr s"
proof -
  have "stderr (snd (step5 E R s)) =
     stderr s @
     (case fetch_current R of
        Inl e \<Rightarrow> []
      | Inr c \<Rightarrow>
          if mintIsInitialized c then []
          else if (case getAccountInfo_mint R of Inl e \<Rightarrow> False | Inr v \<Rightarrow> v \<noteq> None)
          then []
          else (case rpc_initializeArkhamMint R of
                  Inl e \<Rightarrow> [''Failed to initialize ARKHAM Mint:'', message e]
                | Inr tx \<Rightarrow> []))"
    by (simp add: step5_def proj helper_proj helper_stderr split: sum.splits option.splits)
  with assms show ?thesis
    by (simp add: step5_fst split: sum.splits if_splits)
qed

lemma step6_stderr: "stderr (snd (step6 E R s)) = stderr s"
  by (simp add: step6_def proj helper_proj helper_stderr split: sum.splits option.splits)

lemma main_snd:
  "fst (step4 E D R s) = Inr () \<Longrightarrow> fst (step5 E R start) = Inr () \<Longrightarrow>
   snd (main E D R s) = snd (step6 E R (snd (step5 E R (snd (step4 E D R s)))))"
  using step5_fst_any [of E R "snd (step4 E D R s)"]
  by (simp add: main_def await_snd)

lemma main_stderr:
  assumes "fst (main E D R s) = Inr ()"
  shows "stderr (snd (main E D R s)) = stderr s"
proof -
  from assms have 4: "fst (step4 E D R s) = Inr ()" and 5: "fst (step5 E R start) = Inr ()"
    by (auto simp: main_fst split: sum.splits)
  from 5 have "fst (step5 E R (snd (step4 E D R s))) = Inr ()"
    using step5_fst_any [of E R "snd (step4 E D R s)"] by simp
  then show ?thesis
    using 4 5 by (simp add: main_snd step6_stderr step5_stderr step4_stderr)
qed

lemma script_stderr_iff: "stderr (script E D R) = [] \<longleftrightarrow> exitCode (script E D R) = 0"
proof (cases "main E D R start")
  case (Pair r s')
  show ?thesis
  proof (cases r)
    case (Inl e)
    with Pair show ?thesis by (simp add: script_def)
  next
    case (Inr u)
    with Pair have "stderr s' = []"
      using main_stderr [of E D R start] by (simp add: start_def)
    with Pair Inr show ?thesis by (simp add: script_def)
  qed
qed

lemma step5_stdout_unlinked:
  assumes "fetch_current R = Inr c" "\<not> mintIsInitialized c"
    "getAccountInfo_mint R = Inr (Some info)"
  shows "stdout (snd (step5 E R s)) =
     stdout s @ [''Checking ARKHAM Mint status...'', ''Status: Not initialized''] @
     mint_not_linked_warning"
  using assms by (simp add: step5_def proj helper_proj)

lemma step6_stdout_mono: "set (stdout s) \<subseteq> set (stdout (snd (step6 E R s)))"
  by (auto simp: step6_def proj fetchProtocolConfig_def split: sum.splits option.splits)

lemma step5_stdout_linked:
  assumes "fetch_current R = Inr c" "mintIsInitialized c"
  shows "stdout (snd (step5 E R s)) =
     stdout s @ [''Checking ARKHAM Mint status...'', ''Status: Already initialized'']"
  using assms by (simp add: step5_def proj helper_proj)

lemma step6_stdout_ok:
  assumes "fetch_final R = Inr c" "acct_arkhamTokenMint c = Some k"
  shows "stdout (snd (step6 E R s)) =
     stdout s @ [''Initialization Complete!'', ''Final Configuration:'',
                 ''Protocol is ready for use!'']"
  using assms by (simp add: step6_def proj helper_proj)

section \<open>Two runs against the cluster of the specification\<close>











section \<open>Properties\<close>

text \<open>
  Claim C1, as the script implements it. What step 4 submits is decided by the observed state
  of the protocol config alone: no account gives the single instruction Initialize; an
  account that does not decode gives Close and, once Close is confirmed, Initialize; an
  account that decodes gives nothing when its oracle authority is present, is not the null
  key and equals the desired one, and otherwise a single Update that carries every desired
  parameter and leaves the reputation updater unchanged. No other field is compared.
\<close>

theorem primary_plan_decision_table:
  "(observedState R = Absent \<longrightarrow>
      plan4 E D R =
        [InitializeProtocolConfig D (protocolConfigPda E) (authority E) (authority E)]) \<and>
   (observedState R = Incompatible \<and> rpc_closeProtocolConfig R = Inr tx \<longrightarrow>
      plan4 E D R =
        [CloseProtocolConfig (protocolConfigPda E) (authority E) (authority E),
         InitializeProtocolConfig D (protocolConfigPda E) (authority E) (authority E)]) \<and>
   (observedState R = Compatible c \<and> acct_oracleAuthority c = Some (oracleAuthority D) \<and>
    oracleAuthority D \<noteq> PublicKey_default \<longrightarrow>
      plan4 E D R = []) \<and>
   (observedState R = Compatible c \<and>
    \<not> (acct_oracleAuthority c = Some (oracleAuthority D) \<and>
       oracleAuthority D \<noteq> PublicKey_default) \<longrightarrow>
      plan4 E D R =
        [UpdateProtocolConfig (update_payload D) (protocolConfigPda E) (authority E)])"
  by (simp add: plan4_eq needsOracleUpdate_iff)

theorem primary_plan_decision_table_witness:
  "plan4 example_env CONFIG_PARAMS
     ((steady (account_of CONFIG_PARAMS PublicKey_default))
        \<lparr>getAccountInfo_config := Inr None\<rparr>) =
     [InitializeProtocolConfig CONFIG_PARAMS (PublicKey ''ConfigPda'') (PublicKey ''Wallet'')
        (PublicKey ''Wallet'')] \<and>
   plan4 example_env CONFIG_PARAMS
     ((steady (account_of CONFIG_PARAMS PublicKey_default))
        \<lparr>fetch_existing := Inl (Error ''Invalid account discriminator'')\<rparr>) =
     [CloseProtocolConfig (PublicKey ''ConfigPda'') (PublicKey ''Wallet'') (PublicKey ''Wallet''),
      InitializeProtocolConfig CONFIG_PARAMS (PublicKey ''ConfigPda'') (PublicKey ''Wallet'')
        (PublicKey ''Wallet'')] \<and>
   plan4 example_env CONFIG_PARAMS (steady (account_of CONFIG_PARAMS PublicKey_default)) = [] \<and>
   plan4 example_env CONFIG_PARAMS
     (steady ((account_of CONFIG_PARAMS PublicKey_default)\<lparr>acct_oracleAuthority := None\<rparr>)) =
     [UpdateProtocolConfig (update_payload CONFIG_PARAMS) (PublicKey ''ConfigPda'')
        (PublicKey ''Wallet'')]"
proof -
  let ?c = "account_of CONFIG_PARAMS PublicKey_default"
  have absent: "observedState ((steady ?c)\<lparr>getAccountInfo_config := Inr None\<rparr>) = Absent"
    by (simp add: observedState_def steady_def)
  have incompatible:
    "observedState ((steady ?c)\<lparr>fetch_existing := Inl (Error ''Invalid account discriminator'')\<rparr>)
       = Incompatible \<and>
     rpc_closeProtocolConfig
       ((steady ?c)\<lparr>fetch_existing := Inl (Error ''Invalid account discriminator'')\<rparr>)
       = Inr ''tx-close''"
    by (simp add: observedState_def steady_def)
  have same:
    "observedState (steady ?c) = Compatible ?c \<and>
     acct_oracleAuthority ?c = Some (oracleAuthority CONFIG_PARAMS) \<and>
     oracleAuthority CONFIG_PARAMS \<noteq> PublicKey_default"
    by (simp add: observedState_steady account_of_def CONFIG_PARAMS_oracle)
  have unset:
    "observedState (steady (?c\<lparr>acct_oracleAuthority := None\<rparr>))
       = Compatible (?c\<lparr>acct_oracleAuthority := None\<rparr>) \<and>
     \<not> (acct_oracleAuthority (?c\<lparr>acct_oracleAuthority := None\<rparr>)
          = Some (oracleAuthority CONFIG_PARAMS) \<and>
        oracleAuthority CONFIG_PARAMS \<noteq> PublicKey_default)"
    by (simp add: observedState_steady)
  show ?thesis
    using absent incompatible same unset
      primary_plan_decision_table
        [where R = "(steady ?c)\<lparr>getAccountInfo_config := Inr None\<rparr>"
           and E = example_env and D = CONFIG_PARAMS]
      primary_plan_decision_table
        [where R = "(steady ?c)\<lparr>fetch_existing := Inl (Error ''Invalid account discriminator'')\<rparr>"
           and tx = "''tx-close''" and E = example_env and D = CONFIG_PARAMS]
      primary_plan_decision_table
        [where R = "steady ?c" and E = example_env and D = CONFIG_PARAMS and c = ?c]
      primary_plan_decision_table
        [where R = "steady (?c\<lparr>acct_oracleAuthority := None\<rparr>)" and E = example_env
           and D = CONFIG_PARAMS and c = "?c\<lparr>acct_oracleAuthority := None\<rparr>"]
    by (simp add: example_env_def)
qed

text \<open>
  The decision table of the claim asks for an Update whenever a field differs. A stored fee
  of 250 against the desired 200, with the oracle authority in place, gives the empty plan.
\<close>

theorem primary_plan_fee_drift_counterexample:
  "observedState (steady (account_of (CONFIG_PARAMS\<lparr>protocolFeeBps := 250\<rparr>) PublicKey_default))
     = Compatible (account_of (CONFIG_PARAMS\<lparr>protocolFeeBps := 250\<rparr>) PublicKey_default) \<and>
   acct_protocolFeeBps (account_of (CONFIG_PARAMS\<lparr>protocolFeeBps := 250\<rparr>) PublicKey_default)
     \<noteq> protocolFeeBps CONFIG_PARAMS \<and>
   plan4 example_env CONFIG_PARAMS
     (steady (account_of (CONFIG_PARAMS\<lparr>protocolFeeBps := 250\<rparr>) PublicKey_default)) = []"
  by (simp add: plan4_eq observedState_steady needsOracleUpdate_def account_of_def
      CONFIG_PARAMS_def PublicKey_default_def)

text \<open>
  Claim C2, as the script implements it. When the desired configuration differs from the
  stored one in the fee alone (the oracle authority being in place), step 4 submits no
  Update at all: the fee is not propagated. Whenever a run does submit an Update, its
  arguments are those built from the desired configuration: seven explicit values, the
  reputation updater alone being "no change".
\<close>

theorem update_carries_every_parameter:
  "(fields_equal D1 c \<and> oracleAuthority D1 \<noteq> PublicKey_default \<and>
    observedState R = Compatible c \<longrightarrow>
      plan4 E (D1\<lparr>protocolFeeBps := fee\<rparr>) R = []) \<and>
   (UpdateProtocolConfig u p a \<in> set (submitted (calls (script E D R'))) \<longrightarrow>
      u = update_payload D \<and> changed_fields u = 7 \<and> upd_reputationUpdater u = None \<and>
      upd_protocolFeeBps u = Some (protocolFeeBps D) \<and>
      upd_baseRatePerMb u = Some (baseRatePerMb D))"
proof -
  have "changed_fields (update_payload D) = 7"
    by (simp add: changed_fields_def update_payload_def)
  moreover have "upd_reputationUpdater (update_payload D) = None"
    "upd_protocolFeeBps (update_payload D) = Some (protocolFeeBps D)"
    "upd_baseRatePerMb (update_payload D) = Some (baseRatePerMb D)"
    by (simp_all add: update_payload_def)
  moreover have "UpdateProtocolConfig u p a \<in> set (submitted (calls (script E D R'))) \<Longrightarrow>
      u = update_payload D"
    by (auto simp: script_submitted plan4_eq plan5_eq
        split: observed.splits sum.splits if_splits)
  ultimately show ?thesis
    by (auto simp: plan4_eq needsOracleUpdate_iff fields_equal_def)
qed

theorem update_carries_every_parameter_witness:
  "plan4 example_env (CONFIG_PARAMS\<lparr>protocolFeeBps := 250\<rparr>)
     (steady (account_of CONFIG_PARAMS PublicKey_default)) = [] \<and>
   changed_fields (update_payload CONFIG_PARAMS) = 7 \<and>
   upd_reputationUpdater (update_payload CONFIG_PARAMS) = None \<and>
   upd_protocolFeeBps (update_payload CONFIG_PARAMS) = Some 200"
proof -
  let ?c = "account_of CONFIG_PARAMS PublicKey_default"
  let ?stale = "?c\<lparr>acct_oracleAuthority := None\<rparr>"
  have hyp1:
    "fields_equal CONFIG_PARAMS ?c \<and> oracleAuthority CONFIG_PARAMS \<noteq> PublicKey_default \<and>
     observedState (steady ?c) = Compatible ?c"
    by (simp add: fields_equal_def account_of_def observedState_steady CONFIG_PARAMS_oracle)
  have "needsOracleUpdate CONFIG_PARAMS ?stale"
    by (simp add: needsOracleUpdate_def)
  then have hyp2:
    "UpdateProtocolConfig (update_payload CONFIG_PARAMS) (PublicKey ''ConfigPda'')
       (PublicKey ''Wallet'')
     \<in> set (submitted (calls (script example_env CONFIG_PARAMS (steady ?stale))))"
    by (simp add: script_submitted plan4_eq observedState_steady example_env_def)
  have fee: "protocolFeeBps CONFIG_PARAMS = 200"
    by (simp add: CONFIG_PARAMS_def)
  show ?thesis
    using hyp1 hyp2 fee
      update_carries_every_parameter
        [where ?D1.0 = CONFIG_PARAMS and c = ?c and R = "steady ?c" and E = example_env
           and fee = 250 and u = "update_payload CONFIG_PARAMS"
           and p = "PublicKey ''ConfigPda''" and a = "PublicKey ''Wallet''"
           and D = CONFIG_PARAMS and R' = "steady ?stale"]
    by simp
qed

text \<open>
  The scenario of the claim: the stored configuration equals the first one, fee 200, and the
  desired one differs in the fee alone, 250. No Update is produced, so no delta with the fee
  as its one changed field exists.
\<close>

theorem fee_only_change_counterexample:
  "fields_equal CONFIG_PARAMS (account_of CONFIG_PARAMS PublicKey_default) \<and>
   protocolFeeBps (CONFIG_PARAMS\<lparr>protocolFeeBps := 250\<rparr>) \<noteq> protocolFeeBps CONFIG_PARAMS \<and>
   plan4 example_env (CONFIG_PARAMS\<lparr>protocolFeeBps := 250\<rparr>)
     (steady (account_of CONFIG_PARAMS PublicKey_default)) = []"
  by (simp add: plan4_eq observedState_steady needsOracleUpdate_def account_of_def
      fields_equal_def CONFIG_PARAMS_def PublicKey_default_def)



text \<open>
  Claim C4, as the script implements it. When the config fetched in step 5 holds a mint link
  that is present and not the null key, step 5 makes one call, the fetch of the config
  itself: the linked address is not probed, nothing is submitted and nothing is thrown,
  whatever the cluster would answer about the mint address. The step reports the mint as
  already initialized: it writes the line "Status: Already initialized" to the output and
  nothing to the error stream.
\<close>

theorem linked_mint_is_not_probed:
  "fetch_current R = Inr c \<and> acct_arkhamTokenMint c = Some k \<and> k \<noteq> PublicKey_default \<longrightarrow>
     calls (snd (step5 E R s)) = calls s @ [FetchProtocolConfig (protocolConfigPda E)] \<and>
     plan5 E R = [] \<and>
     fst (step5 E R s) = Inr () \<and>
     stdout (snd (step5 E R s)) =
       stdout s @ [''Checking ARKHAM Mint status...'', ''Status: Already initialized''] \<and>
     stderr (snd (step5 E R s)) = stderr s \<and>
     step5 E (R\<lparr>getAccountInfo_mint := answer\<rparr>) s = step5 E R s"
proof -
  have "step5 E (R\<lparr>getAccountInfo_mint := answer\<rparr>) s = step5 E R s"
    if "fetch_current R = Inr c" "mintIsInitialized c"
    using that by (simp add: step5_def await_def console_log_def fetchProtocolConfig_def
        try_catch_def remote_def resolve_def)
  then show ?thesis
    by (auto simp: step5_calls step5_fst plan5_eq mintIsInitialized_def
        step5_stdout_linked step5_stderr)
qed

theorem linked_mint_is_not_probed_witness:
  "calls (snd (step5 example_env (steady (account_of CONFIG_PARAMS (PublicKey ''MintPda'')))
     start)) = [FetchProtocolConfig (PublicKey ''ConfigPda'')] \<and>
   stdout (snd (step5 example_env (steady (account_of CONFIG_PARAMS (PublicKey ''MintPda'')))
     start)) = [''Checking ARKHAM Mint status...'', ''Status: Already initialized''] \<and>
   fst (step5 example_env (steady (account_of CONFIG_PARAMS (PublicKey ''MintPda''))) start)
     = Inr ()"
proof -
  let ?c = "account_of CONFIG_PARAMS (PublicKey ''MintPda'')"
  have "fetch_current (steady ?c) = Inr ?c \<and>
      acct_arkhamTokenMint ?c = Some (PublicKey ''MintPda'') \<and>
      PublicKey ''MintPda'' \<noteq> PublicKey_default"
    by (simp add: steady_def account_of_def PublicKey_default_def)
  then show ?thesis
    using linked_mint_is_not_probed [where R = "steady ?c" and c = ?c
        and k = "PublicKey ''MintPda''" and E = example_env and s = start]
    by (simp add: example_env_def start_def)
qed

text \<open>
  The config links the mint at the derived mint address and the cluster reports no account
  there: a stale link. The run exits with code 0, writes nothing to the error stream and
  never asks for the account at the mint address.
\<close>

theorem stale_link_counterexample:
  "acct_arkhamTokenMint (account_of CONFIG_PARAMS (PublicKey ''MintPda''))
     = Some (arkhamMintPda example_env) \<and>
   arkhamMintPda example_env \<noteq> PublicKey_default \<and>
   getAccountInfo_mint (steady (account_of CONFIG_PARAMS (PublicKey ''MintPda''))) = Inr None \<and>
   exitCode (script example_env CONFIG_PARAMS
     (steady (account_of CONFIG_PARAMS (PublicKey ''MintPda'')))) = 0 \<and>
   stderr (script example_env CONFIG_PARAMS
     (steady (account_of CONFIG_PARAMS (PublicKey ''MintPda'')))) = [] \<and>
   calls (script example_env CONFIG_PARAMS
     (steady (account_of CONFIG_PARAMS (PublicKey ''MintPda'')))) =
     [GetAccountInfo (PublicKey ''ConfigPda''), FetchProtocolConfig (PublicKey ''ConfigPda''),
      FetchProtocolConfig (PublicKey ''ConfigPda''), FetchProtocolConfig (PublicKey ''ConfigPda'')]"
proof -
  let ?c = "account_of CONFIG_PARAMS (PublicKey ''MintPda'')"
  have link: "acct_arkhamTokenMint ?c = Some (PublicKey ''MintPda'')"
    "acct_oracleAuthority ?c = Some (oracleAuthority CONFIG_PARAMS)"
    by (simp_all add: account_of_def)
  have key: "PublicKey ''MintPda'' \<noteq> PublicKey_default"
    by (simp add: PublicKey_default_def)
  have init: "mintIsInitialized ?c"
    using link key by (simp add: mintIsInitialized_def)
  have upd: "\<not> needsOracleUpdate CONFIG_PARAMS ?c"
    using link CONFIG_PARAMS_oracle by (simp add: needsOracleUpdate_iff)
  have R: "fetch_current (steady ?c) = Inr ?c" "fetch_final (steady ?c) = Inr ?c"
    "getAccountInfo_mint (steady ?c) = Inr None"
    by (simp_all add: steady_def)
  have 4: "fst (step4 example_env CONFIG_PARAMS (steady ?c) start) = Inr ()"
    using upd by (simp add: step4_fst observedState_steady)
  have 5: "fst (step5 example_env (steady ?c) start) = Inr ()"
    using init R by (simp add: step5_fst)
  have 6: "fst (step6 example_env (steady ?c) start) = Inr ()"
    using link R by (simp add: step6_fst)
  have exit: "exitCode (script example_env CONFIG_PARAMS (steady ?c)) = 0"
    using 4 5 6 by (simp add: script_exitCode main_fst)
  have "calls (script example_env CONFIG_PARAMS (steady ?c)) =
     [GetAccountInfo (PublicKey ''ConfigPda''), FetchProtocolConfig (PublicKey ''ConfigPda''),
      FetchProtocolConfig (PublicKey ''ConfigPda''), FetchProtocolConfig (PublicKey ''ConfigPda'')]"
    using 4 5 upd init R
    by (simp add: script_calls main_calls step4_calls step5_calls observedState_steady
        start_def example_env_def)
  with exit link key R show ?thesis
    by (simp add: script_stderr_iff example_env_def)
qed

text \<open>
  Claim C5. When the protocol config is observed Incompatible and the submission of Close
  fails, the run consists of the two probes and the failed Close: Initialize is not
  submitted, nothing is called afterwards and the process exits with code 1. In every run,
  each submitted instruction but the last one was confirmed: the run stops at the first
  submission that fails.
\<close>

theorem failed_close_stops_run:
  "(observedState R = Incompatible \<and> rpc_closeProtocolConfig R = Inl e \<longrightarrow>
      calls (script E D R) =
        [GetAccountInfo (protocolConfigPda E), FetchProtocolConfig (protocolConfigPda E),
         Submit (CloseProtocolConfig (protocolConfigPda E) (authority E) (authority E))] \<and>
      \<not> list_ex is_InitializeProtocolConfig (submitted (calls (script E D R))) \<and>
      exitCode (script E D R) = 1) \<and>
   (a \<in> set (butlast (submitted (calls (script E D R')))) \<longrightarrow>
      (\<exists>tx. submit_response R' a = Inr tx))"
proof -
  have "a \<in> set (butlast (submitted (calls (script E D R')))) \<Longrightarrow>
      \<exists>tx. submit_response R' a = Inr tx"
    by (auto simp: script_submitted plan4_eq plan5_eq step4_fst
        split: observed.splits sum.splits if_splits)
  then show ?thesis
    by (auto simp: script_calls script_exitCode main_calls main_fst step4_calls step4_fst
        start_def)
qed

theorem failed_close_stops_run_witness:
  "calls (script example_env CONFIG_PARAMS
     ((steady (account_of CONFIG_PARAMS PublicKey_default))
        \<lparr>fetch_existing := Inl (Error ''Invalid account discriminator''),
         rpc_closeProtocolConfig := Inl (Error ''AuthorityMismatch'')\<rparr>)) =
     [GetAccountInfo (PublicKey ''ConfigPda''), FetchProtocolConfig (PublicKey ''ConfigPda''),
      Submit (CloseProtocolConfig (PublicKey ''ConfigPda'') (PublicKey ''Wallet'')
                (PublicKey ''Wallet''))] \<and>
   exitCode (script example_env CONFIG_PARAMS
     ((steady (account_of CONFIG_PARAMS PublicKey_default))
        \<lparr>fetch_existing := Inl (Error ''Invalid account discriminator''),
         rpc_closeProtocolConfig := Inl (Error ''AuthorityMismatch'')\<rparr>)) = 1 \<and>
   rpc_closeProtocolConfig
     ((steady (account_of CONFIG_PARAMS PublicKey_default))
        \<lparr>fetch_existing := Inl (Error ''Invalid account discriminator'')\<rparr>) = Inr ''tx-close''"
proof -
  let ?c = "account_of CONFIG_PARAMS PublicKey_default"
  let ?R = "(steady ?c)
        \<lparr>fetch_existing := Inl (Error ''Invalid account discriminator''),
         rpc_closeProtocolConfig := Inl (Error ''AuthorityMismatch'')\<rparr>"
  let ?R' = "(steady ?c)\<lparr>fetch_existing := Inl (Error ''Invalid account discriminator'')\<rparr>"
  let ?close = "CloseProtocolConfig (PublicKey ''ConfigPda'') (PublicKey ''Wallet'')
                  (PublicKey ''Wallet'')"
  have hyp1: "observedState ?R = Incompatible \<and>
      rpc_closeProtocolConfig ?R = Inl (Error ''AuthorityMismatch'')"
    by (simp add: observedState_def steady_def)
  have "observedState ?R' = Incompatible \<and> rpc_closeProtocolConfig ?R' = Inr ''tx-close''"
    by (simp add: observedState_def steady_def)
  then have hyp2: "?close \<in> set (butlast (submitted (calls (script example_env CONFIG_PARAMS ?R'))))"
    by (simp add: script_submitted plan4_eq example_env_def split: sum.splits)
  have confirmed: "rpc_closeProtocolConfig ?R' = Inr ''tx-close''"
    by (simp add: steady_def)
  show ?thesis
    using hyp1 hyp2 confirmed
      failed_close_stops_run [where R = ?R and e = "Error ''AuthorityMismatch''"
        and E = example_env and D = CONFIG_PARAMS and R' = ?R' and a = ?close]
    by (simp add: example_env_def)
qed

text \<open>
  Claim C6, as the script implements it. \<open>fetchProtocolConfig\<close> never throws: whatever the
  underlying fetch throws, be it for bytes that do not decode, for a missing account or for
  a failed transport, the result is \<open>null\<close>, and a config that decodes is returned as it is.
\<close>

theorem fetchProtocolConfig_total:
  "(\<exists>v. fst (fetchProtocolConfig response a s) = Inr v) \<and>
   fst (fetchProtocolConfig (Inl e) a s) = Inr None \<and>
   fst (fetchProtocolConfig (Inr c) a s) = Inr (Some c)"
  by (simp add: fetchProtocolConfig_fst)

text \<open>
  A transport failure of the fetch and bytes that do not decode give the same result, and
  with it the same classification: an account that is in place and sound is observed
  Incompatible when the fetch fails in transport, and the plan is to close it.
\<close>

theorem transport_failure_counterexample:
  "fetchProtocolConfig (Inl (Error ''failed to get info about account: fetch failed''))
     (PublicKey ''ConfigPda'') start =
   fetchProtocolConfig (Inl (Error ''Invalid account discriminator''))
     (PublicKey ''ConfigPda'') start \<and>
   observedState ((steady (account_of CONFIG_PARAMS PublicKey_default))
     \<lparr>fetch_existing := Inl (Error ''failed to get info about account: fetch failed'')\<rparr>)
     = Incompatible \<and>
   plan4 example_env CONFIG_PARAMS ((steady (account_of CONFIG_PARAMS PublicKey_default))
     \<lparr>fetch_existing := Inl (Error ''failed to get info about account: fetch failed'')\<rparr>) =
     [CloseProtocolConfig (PublicKey ''ConfigPda'') (PublicKey ''Wallet'') (PublicKey ''Wallet''),
      InitializeProtocolConfig CONFIG_PARAMS (PublicKey ''ConfigPda'') (PublicKey ''Wallet'')
        (PublicKey ''Wallet'')]"
proof -
  let ?R = "(steady (account_of CONFIG_PARAMS PublicKey_default))
     \<lparr>fetch_existing := Inl (Error ''failed to get info about account: fetch failed'')\<rparr>"
  have same: "fetchProtocolConfig (Inl (Error ''failed to get info about account: fetch failed''))
       (PublicKey ''ConfigPda'') start =
     fetchProtocolConfig (Inl (Error ''Invalid account discriminator''))
       (PublicKey ''ConfigPda'') start"
    by (simp add: fetchProtocolConfig_def try_catch_def await_def remote_def resolve_def
        console_log_def)
  have obs: "observedState ?R = Incompatible" "rpc_closeProtocolConfig ?R = Inr ''tx-close''"
    by (simp_all add: observedState_def steady_def)
  then show ?thesis
    using same by (simp add: plan4_eq example_env_def)
qed

text \<open>
  Claim C7. When the fetch of the config at the start of step 5 does not return a decoded
  config, the process exits with code 1 and no InitializeArkhamMint is submitted; if step 4
  itself went through, the error thrown is the one of the gate. Conversely a run that
  submits InitializeArkhamMint has fetched, in step 5, a config that decodes and whose mint
  link is not set.
\<close>

theorem mint_needs_compatible_config:
  "(isl (fetch_current R) \<longrightarrow>
      exitCode (script E D R) = 1 \<and>
      \<not> list_ex is_InitializeArkhamMint (submitted (calls (script E D R))) \<and>
      (fst (step4 E D R start) = Inr () \<longrightarrow>
         fst (main E D R start) =
           Inl (Error ''Protocol Config must be initialized before mint initialization''))) \<and>
   (list_ex is_InitializeArkhamMint (submitted (calls (script E D R))) \<longrightarrow>
      (\<exists>c. fetch_current R = Inr c \<and> \<not> mintIsInitialized c))"
proof -
  have no4: "\<not> list_ex is_InitializeArkhamMint (plan4 E D R)"
    by (simp add: plan4_eq split: observed.splits sum.splits)
  have 1: "exitCode (script E D R) = 1" if "isl (fetch_current R)"
    using that by (auto simp: script_exitCode main_fst step5_fst isl_def split: sum.splits)
  have 2: "\<not> list_ex is_InitializeArkhamMint (submitted (calls (script E D R)))"
    if "isl (fetch_current R)"
    using that no4 by (auto simp: script_submitted plan5_eq isl_def split: sum.splits)
  have 3: "fst (main E D R start) =
      Inl (Error ''Protocol Config must be initialized before mint initialization'')"
    if "isl (fetch_current R)" "fst (step4 E D R start) = Inr ()"
    using that by (auto simp: main_fst step5_fst isl_def)
  have 4: "\<exists>c. fetch_current R = Inr c \<and> \<not> mintIsInitialized c"
    if "list_ex is_InitializeArkhamMint (submitted (calls (script E D R)))"
    using that no4
    by (auto simp: script_submitted plan5_eq split: sum.splits if_splits)
  from 1 2 3 4 show ?thesis by blast
qed

theorem mint_needs_compatible_config_witness:
  "exitCode (script example_env CONFIG_PARAMS
     ((steady (account_of CONFIG_PARAMS PublicKey_default))
        \<lparr>fetch_current := Inl (Error ''Account does not exist'')\<rparr>)) = 1 \<and>
   fst (main example_env CONFIG_PARAMS
     ((steady (account_of CONFIG_PARAMS PublicKey_default))
        \<lparr>fetch_current := Inl (Error ''Account does not exist'')\<rparr>) start) =
     Inl (Error ''Protocol Config must be initialized before mint initialization'') \<and>
   fetch_current (steady (account_of CONFIG_PARAMS PublicKey_default)) =
     Inr (account_of CONFIG_PARAMS PublicKey_default) \<and>
   list_ex is_InitializeArkhamMint (submitted (calls (script example_env CONFIG_PARAMS
     (steady (account_of CONFIG_PARAMS PublicKey_default)))))"
proof -
  let ?c = "account_of CONFIG_PARAMS PublicKey_default"
  let ?R = "(steady ?c)\<lparr>fetch_current := Inl (Error ''Account does not exist'')\<rparr>"
  have upd: "\<not> needsOracleUpdate CONFIG_PARAMS ?c"
    using CONFIG_PARAMS_oracle by (simp add: needsOracleUpdate_iff account_of_def)
  have obs: "observedState ?R = Compatible ?c"
    by (simp add: observedState_def steady_def)
  have hyp1: "isl (fetch_current ?R)" by simp
  have hyp2: "fst (step4 example_env CONFIG_PARAMS ?R start) = Inr ()"
    using upd obs by (simp add: step4_fst)
  have 4: "fst (step4 example_env CONFIG_PARAMS (steady ?c) start) = Inr ()"
    using upd by (simp add: step4_fst observedState_steady)
  have R: "fetch_current (steady ?c) = Inr ?c" "getAccountInfo_mint (steady ?c) = Inr None"
    by (simp_all add: steady_def)
  have "\<not> mintIsInitialized ?c"
    by (simp add: mintIsInitialized_def account_of_def)
  then have hyp3: "list_ex is_InitializeArkhamMint
      (submitted (calls (script example_env CONFIG_PARAMS (steady ?c))))"
    using 4 R by (simp add: script_submitted plan5_eq)
  show ?thesis
    using hyp1 hyp2 hyp3 R
      mint_needs_compatible_config [where R = ?R and E = example_env and D = CONFIG_PARAMS]
      mint_needs_compatible_config
        [where R = "steady ?c" and E = example_env and D = CONFIG_PARAMS]
    by simp
qed

text \<open>
  Claim C8, as the script implements it. The exit code is 0 or 1, and it is 1 exactly when
  an error leaves \<open>main\<close>, which is exactly when something is written to the error stream
  (the line announcing the failure among it). Exit code 0 means: every instruction submitted
  was confirmed; the config fetched in step 5 decoded, and its mint link was set, or an
  account was found at the mint address, or InitializeArkhamMint was confirmed; the final
  fetch decoded a config with a mint field. A failed submission, or a step 5 or final fetch
  that does not decode, gives exit code 1. Nothing compares the final config with the
  desired one.
\<close>

theorem exit_code_meaning:
  "(exitCode (script E D R) = 0 \<or> exitCode (script E D R) = 1) \<and>
   (exitCode (script E D R) = 1 \<longleftrightarrow> isl (fst (main E D R start))) \<and>
   (exitCode (script E D R) = 1 \<longleftrightarrow> stderr (script E D R) \<noteq> []) \<and>
   (exitCode (script E D R) = 1 \<longrightarrow>
      ''Script failed with error:'' \<in> set (stderr (script E D R))) \<and>
   (exitCode (script E D R) = 0 \<longrightarrow>
      (\<forall>a \<in> set (submitted (calls (script E D R))). \<exists>tx. submit_response R a = Inr tx) \<and>
      (\<exists>c. fetch_current R = Inr c \<and>
         (mintIsInitialized c \<or> (\<exists>info. getAccountInfo_mint R = Inr (Some info)) \<or>
          (\<exists>tx. rpc_initializeArkhamMint R = Inr tx))) \<and>
      (\<exists>c k. fetch_final R = Inr c \<and> acct_arkhamTokenMint c = Some k)) \<and>
   ((\<exists>a \<in> set (submitted (calls (script E D R))). isl (submit_response R a)) \<or>
    isl (fetch_current R) \<or> isl (fetch_final R) \<longrightarrow>
      exitCode (script E D R) = 1)"
proof -
  have code: "exitCode (script E D R) = (if isl (fst (main E D R start)) then 1 else 0)"
    by (simp add: script_exitCode isl_def split: sum.splits)
  have line: "''Script failed with error:'' \<in> set (stderr (script E D R))"
    if "exitCode (script E D R) = 1"
    using that by (cases "main E D R start") (auto simp: script_def split: sum.splits)
  have err: "exitCode (script E D R) = 1 \<longleftrightarrow> stderr (script E D R) \<noteq> []"
    using script_stderr_iff [of E D R] code by (simp split: if_splits)
  have ok: "fst (step4 E D R start) = Inr () \<and> fst (step5 E R start) = Inr () \<and>
      fst (step6 E R start) = Inr ()"
    if "exitCode (script E D R) = 0"
    using that by (auto simp: script_exitCode main_fst split: sum.splits)
  have sub: "\<forall>a \<in> set (submitted (calls (script E D R))). \<exists>tx. submit_response R a = Inr tx"
    if "exitCode (script E D R) = 0"
    using ok [OF that]
    by (auto simp: script_submitted plan4_eq plan5_eq step4_fst step5_fst
        split: observed.splits sum.splits if_splits)
  have dep: "\<exists>c. fetch_current R = Inr c \<and>
         (mintIsInitialized c \<or> (\<exists>info. getAccountInfo_mint R = Inr (Some info)) \<or>
          (\<exists>tx. rpc_initializeArkhamMint R = Inr tx))"
    if "exitCode (script E D R) = 0"
    using ok [OF that] by (auto simp: step5_fst split: sum.splits if_splits)
  have fin: "\<exists>c k. fetch_final R = Inr c \<and> acct_arkhamTokenMint c = Some k"
    if "exitCode (script E D R) = 0"
    using ok [OF that] by (auto simp: step6_fst split: sum.splits option.splits)
  have fatal: "exitCode (script E D R) = 1"
    if "(\<exists>a \<in> set (submitted (calls (script E D R))). isl (submit_response R a)) \<or>
      isl (fetch_current R) \<or> isl (fetch_final R)"
  proof (rule ccontr)
    assume "exitCode (script E D R) \<noteq> 1"
    then have 0: "exitCode (script E D R) = 0" using code by (simp split: if_splits)
    from sub [OF 0] dep [OF 0] fin [OF 0] that show False by auto
  qed
  from code line err sub dep fin fatal show ?thesis
    by (simp split: if_splits)
qed

theorem exit_code_meaning_witness:
  "exitCode (script example_env CONFIG_PARAMS
     (steady (account_of CONFIG_PARAMS PublicKey_default))) = 0 \<and>
   rpc_initializeArkhamMint (steady (account_of CONFIG_PARAMS PublicKey_default))
     = Inr ''tx-mint'' \<and>
   exitCode (script example_env CONFIG_PARAMS
     ((steady (account_of CONFIG_PARAMS PublicKey_default))
        \<lparr>rpc_initializeArkhamMint := Inl (Error ''AuthorityMismatch'')\<rparr>)) = 1 \<and>
   ''Script failed with error:'' \<in> set (stderr (script example_env CONFIG_PARAMS
     ((steady (account_of CONFIG_PARAMS PublicKey_default))
        \<lparr>rpc_initializeArkhamMint := Inl (Error ''AuthorityMismatch'')\<rparr>)))"
proof -
  let ?c = "account_of CONFIG_PARAMS PublicKey_default"
  let ?R = "(steady ?c)\<lparr>rpc_initializeArkhamMint := Inl (Error ''AuthorityMismatch'')\<rparr>"
  let ?mint = "InitializeArkhamMint (PublicKey ''MintPda'') (PublicKey ''MintAuthorityPda'')
     (PublicKey ''ConfigPda'') (PublicKey ''Wallet'')"
  have upd: "\<not> needsOracleUpdate CONFIG_PARAMS ?c"
    using CONFIG_PARAMS_oracle by (simp add: needsOracleUpdate_iff account_of_def)
  have unset: "\<not> mintIsInitialized ?c" "acct_arkhamTokenMint ?c = Some PublicKey_default"
    by (simp_all add: mintIsInitialized_def account_of_def)
  have obs: "observedState ?R = Compatible ?c"
    by (simp add: observedState_def steady_def)
  have R: "fetch_current ?R = Inr ?c" "getAccountInfo_mint ?R = Inr None"
    "fetch_current (steady ?c) = Inr ?c" "getAccountInfo_mint (steady ?c) = Inr None"
    "fetch_final (steady ?c) = Inr ?c"
    "rpc_initializeArkhamMint (steady ?c) = Inr ''tx-mint''"
    by (simp_all add: steady_def)
  have 4: "fst (step4 example_env CONFIG_PARAMS ?R start) = Inr ()"
    using upd obs by (simp add: step4_fst)
  have hyp1: "?mint \<in> set (submitted (calls (script example_env CONFIG_PARAMS ?R))) \<and>
      isl (submit_response ?R ?mint)"
    using 4 R unset by (simp add: script_submitted plan5_eq example_env_def)
  have hyp0: "exitCode (script example_env CONFIG_PARAMS (steady ?c)) = 0"
    using upd unset R
    by (simp add: script_exitCode main_fst step4_fst step5_fst step6_fst observedState_steady)
  show ?thesis
    using hyp0 hyp1 R
      exit_code_meaning [where E = example_env and D = CONFIG_PARAMS and R = ?R]
      exit_code_meaning [where E = example_env and D = CONFIG_PARAMS and R = "steady ?c"]
    by blast
qed

text \<open>
  A config that decodes, holds the desired oracle authority and a mint link, but a fee of
  250 against the desired 200: the run exits with code 0, and the final config, unchanged,
  does not match the desired one.
\<close>

theorem exit_zero_counterexample:
  "exitCode (script example_env CONFIG_PARAMS
     (steady (account_of (CONFIG_PARAMS\<lparr>protocolFeeBps := 250\<rparr>) (PublicKey ''MintPda''))))
     = 0 \<and>
   fetch_final (steady (account_of (CONFIG_PARAMS\<lparr>protocolFeeBps := 250\<rparr>)
      (PublicKey ''MintPda''))) =
     Inr (account_of (CONFIG_PARAMS\<lparr>protocolFeeBps := 250\<rparr>) (PublicKey ''MintPda'')) \<and>
   \<not> fields_equal CONFIG_PARAMS
      (account_of (CONFIG_PARAMS\<lparr>protocolFeeBps := 250\<rparr>) (PublicKey ''MintPda'')) \<and>
   submitted (calls (script example_env CONFIG_PARAMS
     (steady (account_of (CONFIG_PARAMS\<lparr>protocolFeeBps := 250\<rparr>) (PublicKey ''MintPda'')))))
     = []"
proof -
  let ?c = "account_of (CONFIG_PARAMS\<lparr>protocolFeeBps := 250\<rparr>) (PublicKey ''MintPda'')"
  have upd: "\<not> needsOracleUpdate CONFIG_PARAMS ?c"
    using CONFIG_PARAMS_oracle by (simp add: needsOracleUpdate_iff account_of_def)
  have init: "mintIsInitialized ?c" "acct_arkhamTokenMint ?c = Some (PublicKey ''MintPda'')"
    by (simp_all add: mintIsInitialized_def account_of_def PublicKey_default_def)
  have R: "fetch_current (steady ?c) = Inr ?c" "fetch_final (steady ?c) = Inr ?c"
    by (simp_all add: steady_def)
  have differ: "\<not> fields_equal CONFIG_PARAMS ?c"
    by (simp add: fields_equal_def account_of_def CONFIG_PARAMS_def)
  have 4: "fst (step4 example_env CONFIG_PARAMS (steady ?c) start) = Inr ()"
    using upd by (simp add: step4_fst observedState_steady)
  have "exitCode (script example_env CONFIG_PARAMS (steady ?c)) = 0"
    using 4 init R by (simp add: script_exitCode main_fst step5_fst step6_fst)
  moreover have "submitted (calls (script example_env CONFIG_PARAMS (steady ?c))) = []"
    using 4 upd init R by (simp add: script_submitted plan4_eq plan5_eq observedState_steady)
  ultimately show ?thesis
    using R differ by simp
qed

text \<open>
  Claim C9. When the raw probe of the config address throws, \<open>getAccountInfo\<close> returns
  what it returns for a missing account, the account is observed Absent, and step 4 submits
  Initialize, whatever is stored at the address; the error of the probe is not thrown on:
  step 4 fails only if the submission of Initialize does.
\<close>

theorem probe_fault_is_absent:
  "getAccountInfo_config R = Inl e \<longrightarrow>
     getAccountInfo (getAccountInfo_config R) a s = getAccountInfo (Inr None) a s \<and>
     observedState R = Absent \<and>
     plan4 E D R =
       [InitializeProtocolConfig D (protocolConfigPda E) (authority E) (authority E)] \<and>
     fst (step4 E D R start) =
       (case rpc_initializeProtocolConfig R of Inl e' \<Rightarrow> Inl e' | Inr tx \<Rightarrow> Inr ())"
  by (simp add: getAccountInfo_def try_catch_def remote_def resolve_def observedState_def
      plan4_eq step4_fst)

theorem probe_fault_is_absent_witness:
  "plan4 example_env CONFIG_PARAMS
     ((steady (account_of CONFIG_PARAMS (PublicKey ''MintPda'')))
        \<lparr>getAccountInfo_config := Inl (Error ''fetch failed'')\<rparr>) =
     [InitializeProtocolConfig CONFIG_PARAMS (PublicKey ''ConfigPda'') (PublicKey ''Wallet'')
        (PublicKey ''Wallet'')] \<and>
   fst (step4 example_env CONFIG_PARAMS
     ((steady (account_of CONFIG_PARAMS (PublicKey ''MintPda'')))
        \<lparr>getAccountInfo_config := Inl (Error ''fetch failed'')\<rparr>) start) = Inr ()"
proof -
  let ?R = "(steady (account_of CONFIG_PARAMS (PublicKey ''MintPda'')))
        \<lparr>getAccountInfo_config := Inl (Error ''fetch failed'')\<rparr>"
  have hyp: "getAccountInfo_config ?R = Inl (Error ''fetch failed'')" by simp
  have ok: "rpc_initializeProtocolConfig ?R = Inr ''tx-initialize''"
    by (simp add: steady_def)
  show ?thesis
    using hyp ok
      probe_fault_is_absent [where R = ?R and e = "Error ''fetch failed''"
        and E = example_env and D = CONFIG_PARAMS]
    by (simp add: example_env_def)
qed

text \<open>
  Claim C10, as the script implements it. Take a run whose step 4 went through, whose step 5
  fetches a config with the null key as mint link and is answered with an account at the
  derived mint address, and whose final fetch decodes a config with a mint field. Step 5
  then makes its two reads and submits nothing; no InitializeArkhamMint is submitted in the
  run; after the output of step 4 the run writes exactly the lines below, among them the
  three lines about a mint that exists without being linked, a possible earlier failed
  transaction and manual intervention; and the process exits with code 0.
\<close>

theorem unlinked_mint_is_left_alone:
  "fst (step4 E D R start) = Inr () \<and> fetch_current R = Inr c \<and>
   acct_arkhamTokenMint c = Some PublicKey_default \<and>
   getAccountInfo_mint R = Inr (Some info) \<and>
   fetch_final R = Inr c' \<and> acct_arkhamTokenMint c' = Some k \<longrightarrow>
     calls (snd (step5 E R s)) =
       calls s @ [FetchProtocolConfig (protocolConfigPda E), GetAccountInfo (arkhamMintPda E)] \<and>
     \<not> list_ex is_InitializeArkhamMint (submitted (calls (script E D R))) \<and>
     stdout (script E D R) =
       stdout (snd (step4 E D R start)) @
       [''Checking ARKHAM Mint status...'', ''Status: Not initialized'',
        ''Mint account exists but not linked in config!'',
        ''This might indicate a previous failed transaction.'',
        ''Manual intervention may be required.'',
        ''Initialization Complete!'', ''Final Configuration:'',
        ''Protocol is ready for use!''] \<and>
     exitCode (script E D R) = 0"
proof (intro impI, elim conjE)
  assume 4: "fst (step4 E D R start) = Inr ()"
    and cur: "fetch_current R = Inr c"
    and link: "acct_arkhamTokenMint c = Some PublicKey_default"
    and mint: "getAccountInfo_mint R = Inr (Some info)"
    and fin: "fetch_final R = Inr c'" "acct_arkhamTokenMint c' = Some k"
  let ?s4 = "snd (step4 E D R start)"
  let ?s5 = "snd (step5 E R ?s4)"
  have unset: "\<not> mintIsInitialized c"
    using link by (simp add: mintIsInitialized_def)
  have 5: "fst (step5 E R start) = Inr ()"
    using cur unset mint by (simp add: step5_fst)
  have 6: "fst (step6 E R start) = Inr ()"
    using fin by (simp add: step6_fst)
  have no4: "\<not> list_ex is_InitializeArkhamMint (plan4 E D R)"
    by (simp add: plan4_eq split: observed.splits sum.splits)
  have a: "calls (snd (step5 E R s)) =
      calls s @ [FetchProtocolConfig (protocolConfigPda E), GetAccountInfo (arkhamMintPda E)]"
    using cur unset mint by (simp add: step5_calls)
  have b: "\<not> list_ex is_InitializeArkhamMint (submitted (calls (script E D R)))"
    using no4 cur unset mint by (simp add: script_submitted plan5_eq split: sum.splits)
  have eq: "stdout (script E D R) = stdout (snd (step6 E R ?s5))"
    using 4 5 by (simp add: script_stdout main_snd)
  have c: "stdout (script E D R) =
       stdout ?s4 @
       [''Checking ARKHAM Mint status...'', ''Status: Not initialized'',
        ''Mint account exists but not linked in config!'',
        ''This might indicate a previous failed transaction.'',
        ''Manual intervention may be required.'',
        ''Initialization Complete!'', ''Final Configuration:'',
        ''Protocol is ready for use!'']"
    unfolding eq
    by (simp add: step6_stdout_ok [OF fin] step5_stdout_unlinked [OF cur unset mint]
        mint_not_linked_warning_def)
  have d: "exitCode (script E D R) = 0"
    using 4 5 6 by (simp add: script_exitCode main_fst)
  show "calls (snd (step5 E R s)) =
       calls s @ [FetchProtocolConfig (protocolConfigPda E), GetAccountInfo (arkhamMintPda E)] \<and>
     \<not> list_ex is_InitializeArkhamMint (submitted (calls (script E D R))) \<and>
     stdout (script E D R) =
       stdout ?s4 @
       [''Checking ARKHAM Mint status...'', ''Status: Not initialized'',
        ''Mint account exists but not linked in config!'',
        ''This might indicate a previous failed transaction.'',
        ''Manual intervention may be required.'',
        ''Initialization Complete!'', ''Final Configuration:'',
        ''Protocol is ready for use!''] \<and>
     exitCode (script E D R) = 0"
    by (intro conjI) (rule a b c d)+
qed

theorem unlinked_mint_is_left_alone_witness:
  "exitCode (script example_env CONFIG_PARAMS
     ((steady (account_of CONFIG_PARAMS PublicKey_default))
        \<lparr>getAccountInfo_mint := Inr (Some AccountInfo)\<rparr>)) = 0 \<and>
   submitted (calls (script example_env CONFIG_PARAMS
     ((steady (account_of CONFIG_PARAMS PublicKey_default))
        \<lparr>getAccountInfo_mint := Inr (Some AccountInfo)\<rparr>))) = [] \<and>
   stdout (script example_env CONFIG_PARAMS
     ((steady (account_of CONFIG_PARAMS PublicKey_default))
        \<lparr>getAccountInfo_mint := Inr (Some AccountInfo)\<rparr>)) =
     stdout (snd (step4 example_env CONFIG_PARAMS
       ((steady (account_of CONFIG_PARAMS PublicKey_default))
          \<lparr>getAccountInfo_mint := Inr (Some AccountInfo)\<rparr>) start)) @
     [''Checking ARKHAM Mint status...'', ''Status: Not initialized'',
      ''Mint account exists but not linked in config!'',
      ''This might indicate a previous failed transaction.'',
      ''Manual intervention may be required.'',
      ''Initialization Complete!'', ''Final Configuration:'',
      ''Protocol is ready for use!'']"
proof -
  let ?c = "account_of CONFIG_PARAMS PublicKey_default"
  let ?R = "(steady ?c)\<lparr>getAccountInfo_mint := Inr (Some AccountInfo)\<rparr>"
  have upd: "\<not> needsOracleUpdate CONFIG_PARAMS ?c"
    using CONFIG_PARAMS_oracle by (simp add: needsOracleUpdate_iff account_of_def)
  have obs: "observedState ?R = Compatible ?c"
    by (simp add: observedState_def steady_def)
  have 4: "fst (step4 example_env CONFIG_PARAMS ?R start) = Inr ()"
    using upd obs by (simp add: step4_fst)
  have R: "fetch_current ?R = Inr ?c" "getAccountInfo_mint ?R = Inr (Some AccountInfo)"
    "fetch_final ?R = Inr ?c"
    by (simp_all add: steady_def)
  have link: "acct_arkhamTokenMint ?c = Some PublicKey_default"
    by (simp add: account_of_def)
  have unset: "\<not> mintIsInitialized ?c"
    using link by (simp add: mintIsInitialized_def)
  have none: "submitted (calls (script example_env CONFIG_PARAMS ?R)) = []"
    using 4 upd obs R unset by (simp add: script_submitted plan4_eq plan5_eq)
  have hyp: "fst (step4 example_env CONFIG_PARAMS ?R start) = Inr () \<and>
      fetch_current ?R = Inr ?c \<and> acct_arkhamTokenMint ?c = Some PublicKey_default \<and>
      getAccountInfo_mint ?R = Inr (Some AccountInfo) \<and>
      fetch_final ?R = Inr ?c \<and> acct_arkhamTokenMint ?c = Some PublicKey_default"
    using 4 R link by blast
  show ?thesis
    using none
      unlinked_mint_is_left_alone [where E = example_env and D = CONFIG_PARAMS and R = ?R
        and c = ?c and info = AccountInfo and c' = ?c and k = PublicKey_default,
        THEN mp, OF hyp]
    by blast
qed

text \<open>
  Three runs in which the config decodes with the null key as mint link. In the first the
  stored oracle authority is unset, an account is reported at the mint address and the
  Update of step 4 is rejected: the run ends there with exit code 1, before the mint is
  looked at. In the second an account is reported at the mint address and the final fetch
  fails: the summary dereferences \<open>null\<close> and the exit code is 1. In the third the probe
  of the mint address throws: \<open>accountExists\<close> answers false and InitializeArkhamMint is
  submitted.
\<close>

theorem unlinked_mint_counterexample:
  "observedState
     ((steady ((account_of CONFIG_PARAMS PublicKey_default)\<lparr>acct_oracleAuthority := None\<rparr>))
        \<lparr>getAccountInfo_mint := Inr (Some AccountInfo),
         rpc_updateProtocolConfig := Inl (Error ''AuthorityMismatch'')\<rparr>) =
     Compatible ((account_of CONFIG_PARAMS PublicKey_default)\<lparr>acct_oracleAuthority := None\<rparr>) \<and>
   acct_arkhamTokenMint
     ((account_of CONFIG_PARAMS PublicKey_default)\<lparr>acct_oracleAuthority := None\<rparr>) =
     Some PublicKey_default \<and>
   calls (script example_env CONFIG_PARAMS
     ((steady ((account_of CONFIG_PARAMS PublicKey_default)\<lparr>acct_oracleAuthority := None\<rparr>))
        \<lparr>getAccountInfo_mint := Inr (Some AccountInfo),
         rpc_updateProtocolConfig := Inl (Error ''AuthorityMismatch'')\<rparr>)) =
     [GetAccountInfo (PublicKey ''ConfigPda''), FetchProtocolConfig (PublicKey ''ConfigPda''),
      Submit (UpdateProtocolConfig (update_payload CONFIG_PARAMS) (PublicKey ''ConfigPda'')
                (PublicKey ''Wallet''))] \<and>
   exitCode (script example_env CONFIG_PARAMS
     ((steady ((account_of CONFIG_PARAMS PublicKey_default)\<lparr>acct_oracleAuthority := None\<rparr>))
        \<lparr>getAccountInfo_mint := Inr (Some AccountInfo),
         rpc_updateProtocolConfig := Inl (Error ''AuthorityMismatch'')\<rparr>)) = 1 \<and>
   exitCode (script example_env CONFIG_PARAMS
     ((steady (account_of CONFIG_PARAMS PublicKey_default))
        \<lparr>getAccountInfo_mint := Inr (Some AccountInfo),
         fetch_final := Inl (Error ''fetch failed'')\<rparr>)) = 1 \<and>
   submitted (calls (script example_env CONFIG_PARAMS
     ((steady (account_of CONFIG_PARAMS PublicKey_default))
        \<lparr>getAccountInfo_mint := Inl (Error ''fetch failed'')\<rparr>))) =
     [InitializeArkhamMint (PublicKey ''MintPda'') (PublicKey ''MintAuthorityPda'')
        (PublicKey ''ConfigPda'') (PublicKey ''Wallet'')]"
proof -
  let ?c = "account_of CONFIG_PARAMS PublicKey_default"
  let ?u = "?c\<lparr>acct_oracleAuthority := None\<rparr>"
  let ?Ra = "(steady ?u)\<lparr>getAccountInfo_mint := Inr (Some AccountInfo),
         rpc_updateProtocolConfig := Inl (Error ''AuthorityMismatch'')\<rparr>"
  let ?Rb = "(steady ?c)\<lparr>getAccountInfo_mint := Inr (Some AccountInfo),
         fetch_final := Inl (Error ''fetch failed'')\<rparr>"
  let ?Rc = "(steady ?c)\<lparr>getAccountInfo_mint := Inl (Error ''fetch failed'')\<rparr>"
  have link: "acct_arkhamTokenMint ?u = Some PublicKey_default"
    "acct_arkhamTokenMint ?c = Some PublicKey_default"
    by (simp_all add: account_of_def)
  have unset: "\<not> mintIsInitialized ?c"
    using link by (simp add: mintIsInitialized_def)
  have upd: "needsOracleUpdate CONFIG_PARAMS ?u" "\<not> needsOracleUpdate CONFIG_PARAMS ?c"
    using CONFIG_PARAMS_oracle
    by (simp_all add: needsOracleUpdate_def account_of_def)
  have obs: "observedState ?Ra = Compatible ?u" "observedState ?Rb = Compatible ?c"
    "observedState ?Rc = Compatible ?c"
    by (simp_all add: observedState_def steady_def)
  have Ra: "rpc_updateProtocolConfig ?Ra = Inl (Error ''AuthorityMismatch'')"
    by simp
  have Rb: "fetch_current ?Rb = Inr ?c" "getAccountInfo_mint ?Rb = Inr (Some AccountInfo)"
    "fetch_final ?Rb = Inl (Error ''fetch failed'')"
    by (simp_all add: steady_def)
  have Rc: "fetch_current ?Rc = Inr ?c" "getAccountInfo_mint ?Rc = Inl (Error ''fetch failed'')"
    by (simp_all add: steady_def)
  have 4: "fst (step4 example_env CONFIG_PARAMS ?Ra start) = Inl (Error ''AuthorityMismatch'')"
    "fst (step4 example_env CONFIG_PARAMS ?Rb start) = Inr ()"
    "fst (step4 example_env CONFIG_PARAMS ?Rc start) = Inr ()"
    using upd obs Ra by (simp_all add: step4_fst)
  have a1: "calls (script example_env CONFIG_PARAMS ?Ra) =
     [GetAccountInfo (PublicKey ''ConfigPda''), FetchProtocolConfig (PublicKey ''ConfigPda''),
      Submit (UpdateProtocolConfig (update_payload CONFIG_PARAMS) (PublicKey ''ConfigPda'')
                (PublicKey ''Wallet''))]"
    using 4(1) upd(1) obs(1)
    by (simp add: script_calls main_calls step4_calls start_def example_env_def)
  have a2: "exitCode (script example_env CONFIG_PARAMS ?Ra) = 1"
    using 4(1) by (simp add: script_exitCode main_fst)
  have b: "exitCode (script example_env CONFIG_PARAMS ?Rb) = 1"
    using 4(2) Rb unset by (simp add: script_exitCode main_fst step5_fst step6_fst)
  have c: "submitted (calls (script example_env CONFIG_PARAMS ?Rc)) =
     [InitializeArkhamMint (PublicKey ''MintPda'') (PublicKey ''MintAuthorityPda'')
        (PublicKey ''ConfigPda'') (PublicKey ''Wallet'')]"
    using 4(3) upd(2) obs(3) Rc unset
    by (simp add: script_submitted plan4_eq plan5_eq example_env_def)
  show ?thesis
    by (intro conjI) (rule obs(1) link(1) a1 a2 b c)+
qed

end
